theory Spec2Isabelle
  imports Complex_Main
begin

section \<open>Values shared by the worker (src/index.ts) and the API routes\<close>

text \<open>
  The worker is TypeScript on an event loop. Every handler is embedded as a function from the
  sandbox it talks to (and the environment bindings) to its reply and the sandbox afterwards.
  The sandbox record carries what the container would answer and the list of effects performed
  so far, so that "no mount was attempted" or "exactly one command was started" are statements
  about that list.
\<close>

subsection \<open>JavaScript strings and truthiness\<close>

text \<open>A binding of \<open>env\<close> is a string or undefined; \<open>!x\<close> holds for undefined and for the empty string.\<close>

definition truthy :: "string option \<Rightarrow> bool" where
  "truthy v = (case v of None \<Rightarrow> False | Some x \<Rightarrow> x \<noteq> [])"

text \<open>\<open>a || b\<close> on two possibly undefined strings.\<close>

definition or_else :: "string option \<Rightarrow> string option \<Rightarrow> string option" where
  "or_else a b = (if truthy a then a else b)"

primrec startsWith :: "string \<Rightarrow> string \<Rightarrow> bool" where
  "startsWith s [] = True"
| "startsWith s (c # t) = (case s of [] \<Rightarrow> False | d # s' \<Rightarrow> c = d \<and> startsWith s' t)"

text \<open>\<open>String.prototype.includes\<close>: the needle occurs at some position of the string.\<close>

primrec str_includes :: "string \<Rightarrow> string \<Rightarrow> bool" where
  "str_includes [] t = (t = [])"
| "str_includes (c # s) t = (startsWith (c # s) t \<or> str_includes s t)"

text \<open>
  \<open>String.prototype.toLowerCase\<close> on code units below 256 (header values are byte strings):
  A-Z and the Latin-1 capitals (all of 0xC0-0xDE but the multiplication sign) move up by 32.
\<close>

definition toLowerChar :: "char \<Rightarrow> char" where
  "toLowerChar c =
     (let n = (of_char c :: nat)
      in if (65 \<le> n \<and> n \<le> 90) \<or> (192 \<le> n \<and> n \<le> 222 \<and> n \<noteq> 215)
         then char_of (n + 32) else c)"

definition toLowerCase :: "string \<Rightarrow> string" where
  "toLowerCase s = map toLowerChar s"

text \<open>\<open>String.prototype.trim\<close> on such strings: white space is TAB, LF, VT, FF, CR, space and NBSP.\<close>

definition isSpace :: "char \<Rightarrow> bool" where
  "isSpace c = (let n = (of_char c :: nat) in (9 \<le> n \<and> n \<le> 13) \<or> n = 32 \<or> n = 160)"

definition trim :: "string \<Rightarrow> string" where
  "trim s = rev (dropWhile isSpace (rev (dropWhile isSpace s)))"

subsection \<open>Thrown values, JSON bodies, environment and configuration\<close>

text \<open>What a \<open>catch\<close> clause receives: an \<open>Error\<close> with its message, or any other thrown value.\<close>

datatype exn = Error string | Thrown

text \<open>\<open>error instanceof Error ? error.message : 'Unknown error'\<close>\<close>

definition errorMessage :: "exn \<Rightarrow> string" where
  "errorMessage e = (case e of Error m \<Rightarrow> m | Thrown \<Rightarrow> ''Unknown error'')"

datatype json =
    JNull
  | JBool bool
  | JString string
  | JArray "json list"
  | JObject "(string \<times> json) list"

text \<open>A property whose value is undefined is left out of the serialised object.\<close>

definition field :: "string \<Rightarrow> json option \<Rightarrow> (string \<times> json) list" where
  "field k v = (case v of None \<Rightarrow> [] | Some j \<Rightarrow> [(k, j)])"

record env =
  ANTHROPIC_API_KEY :: "string option"
  R2_ACCESS_KEY_ID :: "string option"
  R2_SECRET_ACCESS_KEY :: "string option"
  CF_ACCOUNT_ID :: "string option"

text \<open>
  The two constants of \<open>./config\<close>, which is not among the sources, are parameters of
  every function that uses them.
\<close>

record config =
  CLAWDBOT_PORT :: nat
  R2_MOUNT_PATH :: string

subsection \<open>Processes and the sandbox\<close>

datatype proc_status = Pending | Running | Completed | Failed

record logs =
  stdout :: "string option"
  stderr :: "string option"

text \<open>
  A process handle as the handlers see it. Its status and exit code are read by polling, so
  they are functions of the number of 500 ms waits that have passed since the process started;
  a handle that never changes is a constant function.
\<close>

record process =
  proc_id :: string
  status :: "nat \<Rightarrow> proc_status"
  exitCode :: "nat \<Rightarrow> int option"
  getLogs :: "exn + logs"
  kill :: "exn + unit"

text \<open>
  A request: the method, the URL, the body and the header list. A \<open>Headers\<close> object keeps
  names in lower case and \<open>get\<close> lowers the name it is given.
\<close>

record request =
  req_method :: string
  req_url :: string
  req_headers :: "string \<rightharpoonup> string"
  req_body :: string

definition headers_get :: "request \<Rightarrow> string \<Rightarrow> string option" where
  "headers_get r name = req_headers r (toLowerCase name)"

datatype action =
    Log string
  | ProbeMount
  | MountCommand
  | StartProcess string
  | Sleep nat
  | GetLogs string
  | Kill string
  | FindProcess
  | EnsureGateway
  | EnsureGatewayInBackground
  | WsConnect request nat
  | ContainerFetch request nat

text \<open>
  The sandbox: whether the fixed mount path behaves as mounted, what a mount command would
  do, what starting a command yields, and the effects performed so far (oldest first).
  \<open>ensureClawdbotGateway\<close> and \<open>findExistingClawdbotProcess\<close> live in \<open>./gateway\<close>, which
  is not among the sources: what they return is a field here, so every handler is checked
  for every answer they can give.
\<close>

record sandbox =
  mounted :: bool
  mountBucket :: "exn + unit"
  startProcess :: "string \<Rightarrow> exn + process"
  ensureClawdbotGateway :: "exn + unit"
  findExistingClawdbotProcess :: "exn + process option"
  trace :: "action list"

definition perform :: "action \<Rightarrow> sandbox \<Rightarrow> sandbox" where
  "perform a s = s\<lparr>trace := trace s @ [a]\<rparr>"

text \<open>What a handler hands back: a JSON response with its status, or the outcome of the one
  proxy call it made (whatever the container answers, a transport error included).\<close>

datatype reply =
    Respond nat json
  | RelayWebSocket request nat
  | ForwardHttp request nat

section \<open>src/index.ts: the catch-all route\<close>

definition hint_default :: string where
  "hint_default = ''Check worker logs with: wrangler tail''"

definition hint_missing_key :: string where
  "hint_missing_key = ''ANTHROPIC_API_KEY is not set. Run: wrangler secret put ANTHROPIC_API_KEY''"

definition hint_oom :: string where
  "hint_oom = ''Gateway ran out of memory. Try again or check for memory leaks.''"

definition catch_all :: "config \<Rightarrow> env \<Rightarrow> request \<Rightarrow> sandbox \<Rightarrow> reply \<times> sandbox" where
  "catch_all cfg e req s =
     (let s0 = perform EnsureGateway s in
      case ensureClawdbotGateway s of
        Inl error \<Rightarrow>
          (let s1 = perform (Log ''Failed to start Clawdbot:'') s0;
               msg = errorMessage error;
               hint = (if \<not> truthy (ANTHROPIC_API_KEY e) then hint_missing_key
                       else if str_includes msg ''heap out of memory'' \<or> str_includes msg ''OOM''
                       then hint_oom
                       else hint_default)
           in (Respond 503 (JObject [(''error'', JString ''Clawdbot gateway failed to start''),
                                     (''details'', JString msg),
                                     (''hint'', JString hint)]), s1))
      | Inr _ \<Rightarrow>
          (if map_option toLowerCase (headers_get req ''Upgrade'') = Some ''websocket''
           then (RelayWebSocket req (CLAWDBOT_PORT cfg),
                 perform (WsConnect req (CLAWDBOT_PORT cfg))
                   (perform (Log ''WebSocket search params:'')
                     (perform (Log ''WebSocket URL:'')
                       (perform (Log ''Proxying WebSocket connection to Clawdbot'') s0))))
           else (ForwardHttp req (CLAWDBOT_PORT cfg),
                 perform (ContainerFetch req (CLAWDBOT_PORT cfg))
                   (perform (Log ''Proxying HTTP request:'') s0))))"

section \<open>The storage mount manager\<close>

text \<open>
  Modelled from the spec: \<open>mountR2Storage\<close> (the spec's \<open>ensureMounted\<close>) is defined in
  \<open>./gateway\<close>, which is not among the sources. Spec 4.3: it never throws to its caller and
  every failure degrades to \<open>false\<close> plus a logged detail; any missing credential field
  short-circuits to \<open>false\<close>; before attempting to mount it checks whether the fixed mount path
  already behaves as mounted and, if so, returns \<open>true\<close> without re-issuing the mount command;
  a failed mount attempt is logged and returns \<open>false\<close>. A mount command that succeeds leaves
  the path mounted.
\<close>

definition mountR2Storage :: "env \<Rightarrow> sandbox \<Rightarrow> bool \<times> sandbox" where
  "mountR2Storage e s =
     (if \<not> truthy (R2_ACCESS_KEY_ID e) \<or> \<not> truthy (R2_SECRET_ACCESS_KEY e)
           \<or> \<not> truthy (CF_ACCOUNT_ID e)
      then (False, perform (Log ''R2 storage not configured'') s)
      else
        (let s1 = perform ProbeMount s in
         if mounted s1 then (True, s1)
         else
           (let s2 = perform MountCommand s1 in
            case mountBucket s2 of
              Inl err \<Rightarrow> (False, perform (Log ''Failed to mount R2 bucket'') s2)
            | Inr _ \<Rightarrow> (True, s2\<lparr>mounted := True\<rparr>))))"

section \<open>src/index.ts: the scheduled backup\<close>

text \<open>The command line both sync paths build (line 160 of index.ts, line 261 of the API routes).\<close>

definition syncCmd :: "config \<Rightarrow> string" where
  "syncCmd cfg =
     ''rsync -a --delete --exclude='*.lock' --exclude='*.log' --exclude='*.tmp' /root/.clawdbot/ ''
       @ R2_MOUNT_PATH cfg @ ''/ && date -Iseconds > '' @ R2_MOUNT_PATH cfg @ ''/.last-sync''"

text \<open>
  \<open>while (proc.status === 'running' && attempts < 60) { sleep 500; attempts++ }\<close>.
  The result is the final value of \<open>attempts\<close>, which is also the number of waits made.
\<close>

function sync_wait :: "process \<Rightarrow> nat \<Rightarrow> sandbox \<Rightarrow> nat \<times> sandbox" where
  "sync_wait proc attempts s =
     (if status proc attempts = Running \<and> attempts < 60
      then sync_wait proc (Suc attempts) (perform (Sleep 500) s)
      else (attempts, s))"
  by pat_completeness auto
termination
  by (relation "measure (\<lambda>(proc, attempts, s). 60 - attempts)") auto

declare sync_wait.simps [simp del]

text \<open>The \<open>try\<close> block of \<open>scheduled\<close>: \<open>Inl\<close> is a value thrown inside it.\<close>

definition scheduled_try :: "config \<Rightarrow> sandbox \<Rightarrow> (exn + unit) \<times> sandbox" where
  "scheduled_try cfg s1 =
     (let s2 = perform (StartProcess (syncCmd cfg))
                 (perform (Log ''[cron] Starting backup sync to R2...'') s1) in
      case startProcess s2 (syncCmd cfg) of
        Inl error \<Rightarrow> (Inl error, s2)
      | Inr proc \<Rightarrow>
          (case sync_wait proc 0 s2 of
             (attempts, s3) \<Rightarrow>
               (let s4 = perform (GetLogs (proc_id proc)) s3 in
                case getLogs proc of
                  Inl error \<Rightarrow> (Inl error, s4)
                | Inr lg \<Rightarrow>
                    (if status proc attempts = Completed \<or> exitCode proc attempts = Some 0
                     then (Inr (), perform (Log ''[cron] Backup sync completed successfully'') s4)
                     else (Inr (), perform (Log ''[cron] Backup sync failed:'') s4)))))"

text \<open>
  \<open>scheduled\<close>: \<open>Inr ()\<close> is the promise resolving, \<open>Inl\<close> would be a value raised to the
  periodic trigger. The credential check and the mount are outside the \<open>try\<close>.
\<close>

definition scheduled :: "config \<Rightarrow> env \<Rightarrow> sandbox \<Rightarrow> (exn + unit) \<times> sandbox" where
  "scheduled cfg e s =
     (if \<not> truthy (R2_ACCESS_KEY_ID e) \<or> \<not> truthy (R2_SECRET_ACCESS_KEY e)
           \<or> \<not> truthy (CF_ACCOUNT_ID e)
      then (Inr (), perform (Log ''[cron] R2 not configured, skipping backup'') s)
      else
        (case mountR2Storage e s of
           (is_mounted, s1) \<Rightarrow>
             if \<not> is_mounted
             then (Inr (), perform (Log ''[cron] Failed to mount R2, skipping backup'') s1)
             else
               (case scheduled_try cfg s1 of
                  (Inl error, s') \<Rightarrow> (Inr (), perform (Log ''[cron] Error during backup sync:'') s')
                | (Inr u, s') \<Rightarrow> (Inr u, s'))))"

section \<open>The API routes: polling helper\<close>

definition CLI_TIMEOUT_MS :: int where
  "CLI_TIMEOUT_MS = 20000"

definition CLI_POLL_INTERVAL_MS :: int where
  "CLI_POLL_INTERVAL_MS = 500"

text \<open>
  The loop of \<open>waitForProcess\<close>: wait, then read the status, leave when it is not running.
  The result is the number of waits made (one more than \<open>attempts\<close> when the loop breaks).
\<close>

function waitForProcess_loop :: "process \<Rightarrow> int \<Rightarrow> nat \<Rightarrow> sandbox \<Rightarrow> nat \<times> sandbox" where
  "waitForProcess_loop proc maxAttempts attempts s =
     (if int attempts < maxAttempts
      then (let s' = perform (Sleep (nat CLI_POLL_INTERVAL_MS)) s in
            if status proc (Suc attempts) \<noteq> Running then (Suc attempts, s')
            else waitForProcess_loop proc maxAttempts (Suc attempts) s')
      else (attempts, s))"
  by pat_completeness auto
termination
  by (relation "measure (\<lambda>(proc, maxAttempts, attempts, s). nat (maxAttempts - int attempts))") auto

declare waitForProcess_loop.simps [simp del]

text \<open>\<open>timeoutMs\<close> is a whole number of milliseconds, as at every call site (20000, 5000, 30000).\<close>

definition waitForProcess :: "process \<Rightarrow> int \<Rightarrow> sandbox \<Rightarrow> nat \<times> sandbox" where
  "waitForProcess proc timeoutMs s =
     waitForProcess_loop proc \<lceil>real_of_int timeoutMs / real_of_int CLI_POLL_INTERVAL_MS\<rceil> 0 s"

section \<open>The API routes: storage status, manual sync, gateway restart\<close>

text \<open>The handlers below start after the access middleware has let the request through.\<close>

definition lastSyncCmd :: "config \<Rightarrow> string" where
  "lastSyncCmd cfg =
     ''cat '' @ R2_MOUNT_PATH cfg @ ''/.last-sync 2>/dev/null || echo '' @ [CHR 0x22, CHR 0x22]"

definition readSyncCmd :: "config \<Rightarrow> string" where
  "readSyncCmd cfg = ''cat '' @ R2_MOUNT_PATH cfg @ ''/.last-sync''"

text \<open>The \<open>try\<close> block of \<open>GET /storage\<close>; its value is what \<open>lastSync\<close> holds afterwards.\<close>

definition storage_try :: "config \<Rightarrow> env \<Rightarrow> sandbox \<Rightarrow> (exn + string option) \<times> sandbox" where
  "storage_try cfg e s =
     (case mountR2Storage e s of
        (is_mounted, s1) \<Rightarrow>
          (let s2 = perform (StartProcess (lastSyncCmd cfg)) s1 in
           case startProcess s2 (lastSyncCmd cfg) of
             Inl error \<Rightarrow> (Inl error, s2)
           | Inr proc \<Rightarrow>
               (case waitForProcess proc 5000 s2 of
                  (waits, s3) \<Rightarrow>
                    (let s4 = perform (GetLogs (proc_id proc)) s3 in
                     case getLogs proc of
                       Inl error \<Rightarrow> (Inl error, s4)
                     | Inr lg \<Rightarrow>
                         (let timestamp = map_option trim (stdout lg)
                          in (Inr (if truthy timestamp then timestamp else None), s4))))))"

definition msg_configured :: string where
  "msg_configured =
     ''R2 storage is configured. Your data will persist across container restarts.''"

definition msg_not_configured :: string where
  "msg_not_configured =
     ''R2 storage is not configured. Paired devices and conversations will be lost when the container restarts.''"

definition storage :: "config \<Rightarrow> env \<Rightarrow> sandbox \<Rightarrow> (exn + reply) \<times> sandbox" where
  "storage cfg e s =
     (let hasCredentials = (truthy (R2_ACCESS_KEY_ID e) \<and> truthy (R2_SECRET_ACCESS_KEY e)
                             \<and> truthy (CF_ACCOUNT_ID e));
          missing = (if \<not> truthy (R2_ACCESS_KEY_ID e) then [''R2_ACCESS_KEY_ID''] else [])
                  @ (if \<not> truthy (R2_SECRET_ACCESS_KEY e) then [''R2_SECRET_ACCESS_KEY''] else [])
                  @ (if \<not> truthy (CF_ACCOUNT_ID e) then [''CF_ACCOUNT_ID''] else []);
          (lastSync, s') =
             (if hasCredentials
              then (case storage_try cfg e s of
                      (Inl error, s1) \<Rightarrow> (None, s1)
                    | (Inr v, s1) \<Rightarrow> (v, s1))
              else (None, s))
      in (Inr (Respond 200 (JObject
               ([(''configured'', JBool hasCredentials)]
                @ field ''missing''
                    (if missing \<noteq> [] then Some (JArray (map JString missing)) else None)
                @ [(''lastSync'', case lastSync of None \<Rightarrow> JNull | Some t \<Rightarrow> JString t),
                   (''message'',
                    JString (if hasCredentials then msg_configured else msg_not_configured))]))),
          s'))"

text \<open>
  The \<open>try\<close> block of \<open>POST /storage/sync\<close>. \<open>now\<close> is \<open>new Date().toISOString()\<close> at the
  moment the fallback is taken.
\<close>

definition storage_sync_try :: "config \<Rightarrow> env \<Rightarrow> string \<Rightarrow> sandbox \<Rightarrow> (exn + reply) \<times> sandbox" where
  "storage_sync_try cfg e now s =
     (case mountR2Storage e s of
        (is_mounted, s1) \<Rightarrow>
          if \<not> is_mounted
          then (Inr (Respond 500 (JObject [(''error'', JString ''Failed to mount R2 storage'')])), s1)
          else
            (let s2 = perform (StartProcess (syncCmd cfg)) s1 in
             case startProcess s2 (syncCmd cfg) of
               Inl error \<Rightarrow> (Inl error, s2)
             | Inr proc \<Rightarrow>
                 (case waitForProcess proc 30000 s2 of
                    (waits, s3) \<Rightarrow>
                      (let s4 = perform (GetLogs (proc_id proc)) s3 in
                       case getLogs proc of
                         Inl error \<Rightarrow> (Inl error, s4)
                       | Inr lg \<Rightarrow>
                           if status proc waits = Completed \<or> exitCode proc waits = Some 0
                           then
                             (let s5 = perform (StartProcess (readSyncCmd cfg)) s4 in
                              case startProcess s5 (readSyncCmd cfg) of
                                Inl error \<Rightarrow> (Inl error, s5)
                              | Inr timestampProc \<Rightarrow>
                                  (case waitForProcess timestampProc 5000 s5 of
                                     (waits', s6) \<Rightarrow>
                                       (let s7 = perform (GetLogs (proc_id timestampProc)) s6 in
                                        case getLogs timestampProc of
                                          Inl error \<Rightarrow> (Inl error, s7)
                                        | Inr timestampLogs \<Rightarrow>
                                            (let lastSync =
                                                   or_else (map_option trim (stdout timestampLogs))
                                                     (Some now)
                                             in (Inr (Respond 200 (JObject
                                                   ([(''success'', JBool True),
                                                     (''message'', JString ''Sync completed successfully'')]
                                                    @ field ''lastSync'' (map_option JString lastSync)))),
                                                 s7)))))
                           else
                             (Inr (Respond 500 (JObject
                                ([(''success'', JBool False),
                                  (''error'', JString ''Sync failed'')]
                                 @ field ''details''
                                     (map_option JString (or_else (stderr lg) (stdout lg)))))),
                              s4)))))"

definition storage_sync :: "config \<Rightarrow> env \<Rightarrow> string \<Rightarrow> sandbox \<Rightarrow> (exn + reply) \<times> sandbox" where
  "storage_sync cfg e now s =
     (if \<not> truthy (R2_ACCESS_KEY_ID e) \<or> \<not> truthy (R2_SECRET_ACCESS_KEY e)
           \<or> \<not> truthy (CF_ACCOUNT_ID e)
      then (Inr (Respond 400 (JObject [(''error'', JString ''R2 storage is not configured'')])), s)
      else
        (case storage_sync_try cfg e now s of
           (Inl error, s') \<Rightarrow>
             (Inr (Respond 500 (JObject [(''error'', JString (errorMessage error))])), s')
         | (Inr r, s') \<Rightarrow> (Inr r, s')))"

text \<open>
  The \<open>try\<close> block of \<open>POST /gateway/restart\<close>. The new gateway is started without being
  awaited: the promise goes to \<open>waitUntil\<close> and its failure is only logged, later.
\<close>

definition gateway_restart_try :: "sandbox \<Rightarrow> (exn + reply) \<times> sandbox" where
  "gateway_restart_try s =
     (let s1 = perform FindProcess s in
      case findExistingClawdbotProcess s1 of
        Inl error \<Rightarrow> (Inl error, s1)
      | Inr existingProcess \<Rightarrow>
          (let s2 = (case existingProcess of
                       None \<Rightarrow> s1
                     | Some p \<Rightarrow>
                         (let sa = perform (Kill (proc_id p))
                                     (perform (Log ''Killing existing gateway process:'') s1);
                              sb = (case kill p of
                                      Inl killErr \<Rightarrow> perform (Log ''Error killing process:'') sa
                                    | Inr _ \<Rightarrow> sa)
                          in perform (Sleep 2000) sb));
               s3 = perform EnsureGatewayInBackground s2
           in (Inr (Respond 200 (JObject
                 ([(''success'', JBool True),
                   (''message'',
                    JString (if existingProcess \<noteq> None
                             then ''Gateway process killed, new instance starting...''
                             else ''No existing process found, starting new instance...''))]
                  @ field ''previousProcessId''
                      (map_option (\<lambda>p. JString (proc_id p)) existingProcess)))),
               s3)))"

definition gateway_restart :: "sandbox \<Rightarrow> (exn + reply) \<times> sandbox" where
  "gateway_restart s =
     (case gateway_restart_try s of
        (Inl error, s') \<Rightarrow>
          (Inr (Respond 500 (JObject [(''error'', JString (errorMessage error))])), s')
      | (Inr r, s') \<Rightarrow> (Inr r, s'))"

section \<open>Reading the effects of a handler\<close>

primrec started :: "action list \<Rightarrow> string list" where
  "started [] = []"
| "started (a # as) = (case a of StartProcess c \<Rightarrow> c # started as | _ \<Rightarrow> started as)"

primrec waited :: "action list \<Rightarrow> nat" where
  "waited [] = 0"
| "waited (a # as) = (case a of Sleep ms \<Rightarrow> ms + waited as | _ \<Rightarrow> waited as)"

primrec killed :: "action list \<Rightarrow> string list" where
  "killed [] = []"
| "killed (a # as) = (case a of Kill p \<Rightarrow> p # killed as | _ \<Rightarrow> killed as)"

primrec mount_commands :: "action list \<Rightarrow> nat" where
  "mount_commands [] = 0"
| "mount_commands (a # as) =
     (case a of MountCommand \<Rightarrow> Suc (mount_commands as) | _ \<Rightarrow> mount_commands as)"

primrec mount_probes :: "action list \<Rightarrow> nat" where
  "mount_probes [] = 0"
| "mount_probes (a # as) =
     (case a of ProbeMount \<Rightarrow> Suc (mount_probes as) | _ \<Rightarrow> mount_probes as)"

primrec proxied :: "action list \<Rightarrow> action list" where
  "proxied [] = []"
| "proxied (a # as) =
     (case a of WsConnect r p \<Rightarrow> a # proxied as
              | ContainerFetch r p \<Rightarrow> a # proxied as
              | _ \<Rightarrow> proxied as)"

section \<open>Command lines as the shell reads them\<close>

text \<open>
  Every command is handed to a shell as one string. What follows reads the fragment of the
  shell language the three storage commands are written in: words separated by blanks, single
  and double quotes, the \<open>&&\<close> and \<open>||\<close> operators, the \<open>>\<close> redirection and the \<open>2>\<close>
  redirection of the error stream. Any other shell metacharacter outside quotes (and any
  expansion inside double quotes) is refused, so a command line that reads successfully lies
  within the fragment.
\<close>

datatype token = Word string | AndIf | OrIf | Great | ErrGreat

datatype lex_state = Normal | InQuote | InDoubleQuote | SawAmp | SawBar

definition plain :: "char \<Rightarrow> bool" where
  "plain c = (c \<in> set ''abcdefghijklmnopqrstuvwxyzABCDEFGHIJKLMNOPQRSTUVWXYZ0123456789/._-=+:,@%'')"

definition flush :: "string option \<Rightarrow> token list" where
  "flush cur = (case cur of None \<Rightarrow> [] | Some w \<Rightarrow> [Word w])"

definition so_far :: "string option \<Rightarrow> string" where
  "so_far cur = (case cur of None \<Rightarrow> [] | Some w \<Rightarrow> w)"

primrec lex :: "string \<Rightarrow> lex_state \<Rightarrow> string option \<Rightarrow> token list option" where
  "lex [] st cur = (if st = Normal then Some (flush cur) else None)"
| "lex (c # cs) st cur =
     (case st of
        InQuote \<Rightarrow>
          if c = CHR 0x27 then lex cs Normal cur
          else lex cs InQuote (Some (so_far cur @ [c]))
      | InDoubleQuote \<Rightarrow>
          if c = CHR 0x22 then lex cs Normal cur
          else if c = CHR ''$'' \<or> c = CHR 0x60 \<or> c = CHR 0x5C then None
          else lex cs InDoubleQuote (Some (so_far cur @ [c]))
      | SawAmp \<Rightarrow>
          if c = CHR ''&'' then map_option (Cons AndIf) (lex cs Normal None) else None
      | SawBar \<Rightarrow>
          if c = CHR ''|'' then map_option (Cons OrIf) (lex cs Normal None) else None
      | Normal \<Rightarrow>
          if c = CHR '' '' then map_option (append (flush cur)) (lex cs Normal None)
          else if c = CHR 0x27 then lex cs InQuote (Some (so_far cur))
          else if c = CHR 0x22 then lex cs InDoubleQuote (Some (so_far cur))
          else if c = CHR ''&'' then map_option (append (flush cur)) (lex cs SawAmp None)
          else if c = CHR ''|'' then map_option (append (flush cur)) (lex cs SawBar None)
          else if c = CHR ''>''
          then (if cur = None then map_option (Cons Great) (lex cs Normal None)
                else if cur = Some ''2'' then map_option (Cons ErrGreat) (lex cs Normal None)
                else None)
          else if plain c then lex cs Normal (Some (so_far cur @ [c]))
          else None)"

record simple_command =
  argv :: "string list"
  stdout_to :: "string option"

text \<open>An AND-list of commands without error redirection, the shape of the sync command.\<close>

fun parse_list :: "token list \<Rightarrow> simple_command \<Rightarrow> simple_command list option" where
  "parse_list [] cur = (if argv cur = [] then None else Some [cur])"
| "parse_list (Word w # ts) cur = parse_list ts (cur\<lparr>argv := argv cur @ [w]\<rparr>)"
| "parse_list (Great # Word f # ts) cur = parse_list ts (cur\<lparr>stdout_to := Some f\<rparr>)"
| "parse_list (Great # ts) cur = None"
| "parse_list (AndIf # ts) cur =
     (if argv cur = [] then None
      else map_option (Cons cur) (parse_list ts \<lparr>argv = [], stdout_to = None\<rparr>))"
| "parse_list (OrIf # ts) cur = None"
| "parse_list (ErrGreat # ts) cur = None"

definition sh_parse :: "string \<Rightarrow> simple_command list option" where
  "sh_parse s =
     (case lex s Normal None of
        None \<Rightarrow> None
      | Some ts \<Rightarrow> parse_list ts \<lparr>argv = [], stdout_to = None\<rparr>)"

text \<open>
  Running an AND-list: each command runs only if the one before it exited with 0. \<open>exec\<close>
  gives the exit status and the standard output of a command; a redirected command writes its
  output to the named file. The result is the exit status and the files written.
\<close>

fun sh_run :: "(string list \<Rightarrow> int \<times> string) \<Rightarrow> simple_command list \<Rightarrow> int \<times> (string \<times> string) list" where
  "sh_run exec [] = (0, [])"
| "sh_run exec (c # cs) =
     (case exec (argv c) of
        (rc, out) \<Rightarrow>
          (let w = (case stdout_to c of None \<Rightarrow> [] | Some f \<Rightarrow> [(f, out)])
           in if rc = 0 \<and> cs \<noteq> []
              then (case sh_run exec cs of (rc', w') \<Rightarrow> (rc', w @ w'))
              else (rc, w)))"

subsection \<open>AND-OR lists over a file system\<close>

text \<open>
  The general form: commands joined by \<open>&&\<close> and \<open>||\<close>, each with optional redirections of
  its output and of its error stream. Each command is paired with the operator that follows
  it.
\<close>

record command = simple_command +
  stderr_to :: "string option"

datatype connective = And_If | Or_If

definition no_command :: command where
  "no_command = \<lparr>argv = [], stdout_to = None, stderr_to = None\<rparr>"

fun parse_and_or :: "token list \<Rightarrow> command \<Rightarrow> (command \<times> connective option) list option" where
  "parse_and_or [] cur = (if argv cur = [] then None else Some [(cur, None)])"
| "parse_and_or (Word w # ts) cur = parse_and_or ts (cur\<lparr>argv := argv cur @ [w]\<rparr>)"
| "parse_and_or (Great # Word f # ts) cur = parse_and_or ts (cur\<lparr>stdout_to := Some f\<rparr>)"
| "parse_and_or (Great # ts) cur = None"
| "parse_and_or (ErrGreat # Word f # ts) cur = parse_and_or ts (cur\<lparr>stderr_to := Some f\<rparr>)"
| "parse_and_or (ErrGreat # ts) cur = None"
| "parse_and_or (AndIf # ts) cur =
     (if argv cur = [] then None
      else map_option (Cons (cur, Some And_If)) (parse_and_or ts no_command))"
| "parse_and_or (OrIf # ts) cur =
     (if argv cur = [] then None
      else map_option (Cons (cur, Some Or_If)) (parse_and_or ts no_command))"

definition sh_parse_and_or :: "string \<Rightarrow> (command \<times> connective option) list option" where
  "sh_parse_and_or s =
     (case lex s Normal None of
        None \<Rightarrow> None
      | Some ts \<Rightarrow> parse_and_or ts no_command)"

type_synonym files = "string \<rightharpoonup> string"

text \<open>
  The two utilities the read commands use, over the files of the container: \<open>cat\<close> of one
  file prints it and exits with 0, or prints nothing to its output and fails when the file
  is absent; \<open>echo\<close> of one word prints it and a newline. Every other command (\<open>rsync\<close>,
  \<open>date\<close>) is the parameter \<open>other\<close>: its exit status, its output and what it does to the
  files are arbitrary.
\<close>

definition run_utility ::
  "(files \<Rightarrow> string list \<Rightarrow> int \<times> string \<times> files) \<Rightarrow> files \<Rightarrow> string list \<Rightarrow> int \<times> string \<times> files" where
  "run_utility other fs av =
     (case av of
        [u, a] \<Rightarrow>
          if u = ''cat'' then (case fs a of Some content \<Rightarrow> (0, content, fs) | None \<Rightarrow> (1, [], fs))
          else if u = ''echo'' then (0, a @ [CHR 0x0A], fs)
          else other fs av
      | _ \<Rightarrow> other fs av)"

text \<open>
  One command on the state (last exit status, output so far, files). A redirection truncates
  its target before the command runs and then holds the command's output.
\<close>

definition run_command ::
  "(files \<Rightarrow> string list \<Rightarrow> int \<times> string \<times> files) \<Rightarrow> command \<Rightarrow> int \<times> string \<times> files \<Rightarrow> int \<times> string \<times> files" where
  "run_command exec c st =
     (case st of
        (rc, out, fs) \<Rightarrow>
          (case stdout_to c of
             Some f \<Rightarrow>
               (case exec (fs(f \<mapsto> [])) (argv c) of (rc', out', fs') \<Rightarrow> (rc', out, fs'(f \<mapsto> out')))
           | None \<Rightarrow>
               (case exec fs (argv c) of (rc', out', fs') \<Rightarrow> (rc', out @ out', fs'))))"

text \<open>
  An AND-OR list runs left to right: the command after \<open>&&\<close> runs if the status so far is 0,
  the command after \<open>||\<close> if it is not, and a command that is skipped leaves the status as
  it is.
\<close>

fun run_and_or ::
  "(files \<Rightarrow> string list \<Rightarrow> int \<times> string \<times> files) \<Rightarrow> (command \<times> connective option) list \<Rightarrow> bool
     \<Rightarrow> int \<times> string \<times> files \<Rightarrow> int \<times> string \<times> files" where
  "run_and_or exec [] go st = st"
| "run_and_or exec ((c, op) # rest) go st =
     (let st' = (if go then run_command exec c st else st);
          go' = (case op of
                   None \<Rightarrow> False
                 | Some And_If \<Rightarrow> fst st' = 0
                 | Some Or_If \<Rightarrow> fst st' \<noteq> 0)
      in run_and_or exec rest go' st')"

text \<open>A command line run by the shell over the files \<open>fs\<close>: exit status, output, files after.\<close>

definition sh :: "(files \<Rightarrow> string list \<Rightarrow> int \<times> string \<times> files) \<Rightarrow> files \<Rightarrow> string \<Rightarrow> (int \<times> string \<times> files) option" where
  "sh other fs line =
     (case sh_parse_and_or line of
        None \<Rightarrow> None
      | Some cs \<Rightarrow> Some (run_and_or (run_utility other) cs True (0, [], fs)))"

section \<open>The gateway lifecycle manager: single flight\<close>

text \<open>
  Modelled from the spec: \<open>ensureClawdbotGateway\<close> (the spec's \<open>ensureReady\<close>) is defined in
  \<open>./gateway\<close>, which is not among the sources. Spec 4.1 and 9: a keyed registry holds one
  pending-attempt token per sandbox logical name; a caller that finds a gateway running is
  ready at once; a caller that finds no token and no running gateway spawns one and leaves the
  token; a caller arriving while the token is held attaches to that attempt; when the attempt
  resolves, every attached caller observes its outcome and the token is cleared, so that a call
  after a failure may retry. The handlers run on one event loop, so a run is a sequence of
  events: a caller entering \<open>ensureReady\<close>, or the in-flight attempt of a sandbox resolving.
\<close>

datatype outcome = Ready | StartupError string

datatype event = Call string nat | Resolve string outcome

record manager =
  gateway_running :: "string \<Rightarrow> bool"
  in_flight :: "string \<rightharpoonup> nat list"
  spawn_count :: "string \<Rightarrow> nat"
  resolved :: "(nat \<times> outcome) list"

fun ensureReady_step :: "manager \<Rightarrow> event \<Rightarrow> manager" where
  "ensureReady_step m (Call name caller) =
     (case in_flight m name of
        Some waiting \<Rightarrow> m\<lparr>in_flight := (in_flight m)(name \<mapsto> waiting @ [caller])\<rparr>
      | None \<Rightarrow>
          if gateway_running m name
          then m\<lparr>resolved := resolved m @ [(caller, Ready)]\<rparr>
          else m\<lparr>spawn_count := (spawn_count m)(name := Suc (spawn_count m name)),
                 in_flight := (in_flight m)(name \<mapsto> [caller])\<rparr>)"
| "ensureReady_step m (Resolve name out) =
     (case in_flight m name of
        None \<Rightarrow> m
      | Some waiting \<Rightarrow>
          m\<lparr>in_flight := (in_flight m)(name := None),
            gateway_running := (gateway_running m)(name := (out = Ready)),
            resolved := resolved m @ map (\<lambda>caller. (caller, out)) waiting\<rparr>)"

definition ensureReady_run :: "manager \<Rightarrow> event list \<Rightarrow> manager" where
  "ensureReady_run m evs = foldl ensureReady_step m evs"

section \<open>The hint classification in the words of the specification\<close>

text \<open>
  Spec 4.1 (5) and 9: an ordered table, the missing credential first, the out-of-memory
  markers second, a generic fallback last.
\<close>

datatype category = MissingCredential | ResourceExhaustion | Unknown

definition classify :: "env \<Rightarrow> string \<Rightarrow> category" where
  "classify e msg =
     (if \<not> truthy (ANTHROPIC_API_KEY e) then MissingCredential
      else if str_includes msg ''heap out of memory'' \<or> str_includes msg ''OOM''
      then ResourceExhaustion
      else Unknown)"

definition hint_of :: "category \<Rightarrow> string" where
  "hint_of k = (case k of MissingCredential \<Rightarrow> hint_missing_key
                        | ResourceExhaustion \<Rightarrow> hint_oom
                        | Unknown \<Rightarrow> hint_default)"

section \<open>Reading a JSON body\<close>

fun json_get :: "json \<Rightarrow> string \<Rightarrow> json option" where
  "json_get (JObject kvs) k = map_of kvs k"
| "json_get j k = None"

section \<open>Concrete inputs\<close>

definition example_env :: env where
  "example_env =
     \<lparr>ANTHROPIC_API_KEY = Some ''sk-ant-example'', R2_ACCESS_KEY_ID = Some ''key-id'',
      R2_SECRET_ACCESS_KEY = Some ''secret'', CF_ACCOUNT_ID = Some ''account''\<rparr>"

definition example_config :: config where
  "example_config = \<lparr>CLAWDBOT_PORT = 18789, R2_MOUNT_PATH = ''/data/clawdbot''\<rparr>"

text \<open>A process that runs for three polls and then completes with exit code 0.\<close>

definition example_process :: process where
  "example_process =
     \<lparr>proc_id = ''proc-1'',
      status = (\<lambda>n. if n < 3 then Running else Completed),
      exitCode = (\<lambda>n. if n < 3 then None else Some 0),
      getLogs = Inr \<lparr>stdout = Some (''2026-01-30T12:00:00+00:00'' @ [CHR 0x0A]), stderr = Some []\<rparr>,
      kill = Inl (Error ''no such process'')\<rparr>"

text \<open>A process that never leaves the running state.\<close>

definition stuck_process :: process where
  "stuck_process =
     \<lparr>proc_id = ''proc-2'', status = (\<lambda>n. Running), exitCode = (\<lambda>n. None),
      getLogs = Inr \<lparr>stdout = Some [], stderr = Some []\<rparr>, kill = Inr ()\<rparr>"

definition example_sandbox :: sandbox where
  "example_sandbox =
     \<lparr>mounted = False, mountBucket = Inr (),
      startProcess = (\<lambda>c. Inr example_process),
      ensureClawdbotGateway = Inl (Error ''FATAL ERROR: JavaScript heap out of memory''),
      findExistingClawdbotProcess = Inr (Some example_process),
      trace = []\<rparr>"

definition example_request :: request where
  "example_request =
     \<lparr>req_method = ''GET'', req_url = ''https://bot.example/ws?token=t'',
      req_headers = [''upgrade'' \<mapsto> ''WebSocket''], req_body = []\<rparr>"

definition example_manager :: manager where
  "example_manager =
     \<lparr>gateway_running = (\<lambda>name. False), in_flight = Map.empty,
      spawn_count = (\<lambda>name. 0), resolved = []\<rparr>"

text \<open>A read of the marker where there is none: \<open>echo\<close> has printed an empty line.\<close>

definition absent_marker_process :: process where
  "absent_marker_process =
     \<lparr>proc_id = ''proc-3'', status = (\<lambda>n. Completed), exitCode = (\<lambda>n. Some 0),
      getLogs = Inr \<lparr>stdout = Some [CHR 0x0A], stderr = Some []\<rparr>, kill = Inr ()\<rparr>"

text \<open>A container in which the mount command fails.\<close>

definition broken_sandbox :: sandbox where
  "broken_sandbox =
     \<lparr>mounted = False, mountBucket = Inl (Error ''mount failed''),
      startProcess = (\<lambda>c. Inr absent_marker_process),
      ensureClawdbotGateway = Inr (),
      findExistingClawdbotProcess = Inr None,
      trace = []\<rparr>"


text \<open>The three storage credentials and the names \<open>GET /storage\<close> reports them under.\<close>

definition credential_fields :: "(string \<times> (env \<Rightarrow> string option)) list" where
  "credential_fields =
     [(''R2_ACCESS_KEY_ID'', R2_ACCESS_KEY_ID),
      (''R2_SECRET_ACCESS_KEY'', R2_SECRET_ACCESS_KEY),
      (''CF_ACCOUNT_ID'', CF_ACCOUNT_ID)]"

definition missing_fields :: "env \<Rightarrow> string list" where
  "missing_fields e = map fst (filter (\<lambda>(name, get). \<not> truthy (get e)) credential_fields)"

text \<open>All three R2 credentials are present (\<open>hasCredentials\<close> of \<open>GET /storage\<close>).\<close>

abbreviation hasCredentials :: "env \<Rightarrow> bool" where
  "hasCredentials e \<equiv>
     truthy (R2_ACCESS_KEY_ID e) \<and> truthy (R2_SECRET_ACCESS_KEY e) \<and> truthy (CF_ACCOUNT_ID e)"

section \<open>Facts about the embedding\<close>

lemma trace_perform [simp]: "trace (perform a s) = trace s @ [a]"
  by (simp add: perform_def)

lemma oracles_perform [simp]:
  "mounted (perform a s) = mounted s"
  "mountBucket (perform a s) = mountBucket s"
  "startProcess (perform a s) = startProcess s"
  "ensureClawdbotGateway (perform a s) = ensureClawdbotGateway s"
  "findExistingClawdbotProcess (perform a s) = findExistingClawdbotProcess s"
  by (simp_all add: perform_def)

lemma started_append [simp]: "started (xs @ ys) = started xs @ started ys"
  by (induction xs) (auto split: action.splits)

lemma waited_append [simp]: "waited (xs @ ys) = waited xs + waited ys"
  by (induction xs) (auto split: action.splits)

lemma killed_append [simp]: "killed (xs @ ys) = killed xs @ killed ys"
  by (induction xs) (auto split: action.splits)

lemma mount_commands_append [simp]:
  "mount_commands (xs @ ys) = mount_commands xs + mount_commands ys"
  by (induction xs) (auto split: action.splits)

lemma mount_probes_append [simp]:
  "mount_probes (xs @ ys) = mount_probes xs + mount_probes ys"
  by (induction xs) (auto split: action.splits)

lemma proxied_append [simp]: "proxied (xs @ ys) = proxied xs @ proxied ys"
  by (induction xs) (auto split: action.splits)

lemma readers_replicate_Sleep [simp]:
  "started (replicate k (Sleep d)) = []"
  "killed (replicate k (Sleep d)) = []"
  "mount_commands (replicate k (Sleep d)) = 0"
  "mount_probes (replicate k (Sleep d)) = 0"
  "proxied (replicate k (Sleep d)) = []"
  "waited (replicate k (Sleep d)) = k * d"
  by (induction k) auto

text \<open>\<open>str_includes\<close> is the substring relation.\<close>

lemma startsWith_iff: "startsWith s t \<longleftrightarrow> (\<exists>b. s = t @ b)"
  by (induction t arbitrary: s) (auto split: list.splits)

lemma str_includes_iff: "str_includes s t \<longleftrightarrow> (\<exists>a b. s = a @ t @ b)"
proof (induction s)
  case Nil
  then show ?case by auto
next
  case (Cons c s)
  show ?case
  proof
    assume "str_includes (c # s) t"
    then consider "startsWith (c # s) t" | "str_includes s t" by auto
    then show "\<exists>a b. c # s = a @ t @ b"
    proof cases
      case 1
      then obtain b where "c # s = t @ b" by (auto simp: startsWith_iff)
      then have "c # s = [] @ t @ b" by simp
      then show ?thesis by blast
    next
      case 2
      then obtain a b where "s = a @ t @ b" using Cons.IH by auto
      then have "c # s = (c # a) @ t @ b" by simp
      then show ?thesis by blast
    qed
  next
    assume "\<exists>a b. c # s = a @ t @ b"
    then obtain a b where ab: "c # s = a @ t @ b" by blast
    show "str_includes (c # s) t"
    proof (cases a)
      case Nil
      with ab have "startsWith (c # s) t" by (auto simp: startsWith_iff)
      then show ?thesis by simp
    next
      case (Cons d a')
      with ab have "s = a' @ t @ b" by simp
      then have "str_includes s t" using Cons.IH by blast
      then show ?thesis by simp
    qed
  qed
qed

subsection \<open>The two polling loops\<close>

lemma replicate_step: "Suc n \<le> k \<Longrightarrow> replicate (k - n) x = x # replicate (k - Suc n) x"
  by (cases "k - n") auto

lemma sync_wait_shape:
  "\<exists>k. sync_wait proc n s = (k, s\<lparr>trace := trace s @ replicate (k - n) (Sleep 500)\<rparr>)
       \<and> n \<le> k \<and> k \<le> max n 60 \<and> (status proc k \<noteq> Running \<or> 60 \<le> k)"
proof (induction proc n s rule: sync_wait.induct)
  case (1 proc attempts s)
  show ?case
  proof (cases "status proc attempts = Running \<and> attempts < 60")
    case True
    with 1 obtain k where k: "sync_wait proc (Suc attempts) (perform (Sleep 500) s) =
        (k, (perform (Sleep 500) s)\<lparr>trace := trace (perform (Sleep 500) s) @ replicate (k - Suc attempts) (Sleep 500)\<rparr>)"
      "Suc attempts \<le> k" "k \<le> max (Suc attempts) 60" "status proc k \<noteq> Running \<or> 60 \<le> k"
      by blast
    have eq: "sync_wait proc attempts s = sync_wait proc (Suc attempts) (perform (Sleep 500) s)"
      using True by (subst sync_wait.simps) simp
    have "sync_wait proc attempts s = (k, s\<lparr>trace := trace s @ replicate (k - attempts) (Sleep 500)\<rparr>)"
      unfolding eq k(1) by (simp add: perform_def replicate_step [OF k(2)])
    moreover have "attempts \<le> k" "k \<le> max attempts 60" using k(2,3) True by auto
    ultimately show ?thesis using k(4) by blast
  next
    case False
    have "sync_wait proc attempts s = (attempts, s)"
      using False by (subst sync_wait.simps) auto
    then show ?thesis using False by auto
  qed
qed

lemma waitForProcess_loop_shape:
  "\<exists>k. waitForProcess_loop proc m n s = (k, s\<lparr>trace := trace s @ replicate (k - n) (Sleep 500)\<rparr>)
       \<and> n \<le> k \<and> int k \<le> max (int n) m"
proof (induction proc m n s rule: waitForProcess_loop.induct)
  case (1 proc maxAttempts attempts s)
  let ?s' = "perform (Sleep (nat CLI_POLL_INTERVAL_MS)) s"
  have s': "?s' = s\<lparr>trace := trace s @ [Sleep 500]\<rparr>"
    by (simp add: perform_def CLI_POLL_INTERVAL_MS_def)
  show ?case
  proof (cases "int attempts < maxAttempts")
    case lt: True
    show ?thesis
    proof (cases "status proc (Suc attempts) \<noteq> Running")
      case True
      have "waitForProcess_loop proc maxAttempts attempts s = (Suc attempts, ?s')"
        using lt True by (subst waitForProcess_loop.simps) (simp add: Let_def)
      then have "waitForProcess_loop proc maxAttempts attempts s =
          (Suc attempts, s\<lparr>trace := trace s @ replicate (Suc attempts - attempts) (Sleep 500)\<rparr>)"
        by (simp add: s')
      moreover have "int (Suc attempts) \<le> max (int attempts) maxAttempts" using lt by simp
      ultimately show ?thesis by (metis le_SucI order_refl)
    next
      case False
      with lt 1 obtain k where k: "waitForProcess_loop proc maxAttempts (Suc attempts) ?s' =
        (k, ?s'\<lparr>trace := trace ?s' @ replicate (k - Suc attempts) (Sleep 500)\<rparr>)"
        "Suc attempts \<le> k" "int k \<le> max (int (Suc attempts)) maxAttempts"
        by blast
      have eq: "waitForProcess_loop proc maxAttempts attempts s =
                waitForProcess_loop proc maxAttempts (Suc attempts) ?s'"
        using lt False by (subst waitForProcess_loop.simps) (simp add: Let_def)
      have "waitForProcess_loop proc maxAttempts attempts s =
            (k, s\<lparr>trace := trace s @ replicate (k - attempts) (Sleep 500)\<rparr>)"
        unfolding eq k(1) by (simp add: s' replicate_step [OF k(2)])
      moreover have "attempts \<le> k" "int k \<le> max (int attempts) maxAttempts" using k(2,3) lt by auto
      ultimately show ?thesis by blast
    qed
  next
    case False
    have "waitForProcess_loop proc maxAttempts attempts s = (attempts, s)"
      using False by (subst waitForProcess_loop.simps) auto
    then show ?thesis by auto
  qed
qed

lemma toLowerCase_Upgrade: "toLowerCase ''Upgrade'' = ''upgrade''"
  by code_simp

lemma sync_wait_0:
  "\<exists>k\<le>60. sync_wait proc 0 s = (k, s\<lparr>trace := trace s @ replicate k (Sleep 500)\<rparr>)
          \<and> (status proc k \<noteq> Running \<or> k = 60)"
  using sync_wait_shape [of proc 0 s] by auto

lemma waitForProcess_shape:
  "\<exists>k. waitForProcess proc timeoutMs s = (k, s\<lparr>trace := trace s @ replicate k (Sleep 500)\<rparr>)
       \<and> int k \<le> max 0 \<lceil>real_of_int timeoutMs / 500\<rceil>"
  using waitForProcess_loop_shape [of proc "\<lceil>real_of_int timeoutMs / real_of_int CLI_POLL_INTERVAL_MS\<rceil>" 0 s]
  by (auto simp: waitForProcess_def CLI_POLL_INTERVAL_MS_def)

lemma sync_wait_forever_running:
  "(\<forall>n. status proc n = Running) \<Longrightarrow> fst (sync_wait proc 0 s) = 60"
  using sync_wait_0 [of proc s] by auto

section \<open>Facts about the command lines\<close>

lemma plain_not_special:
  "plain c \<Longrightarrow> c \<noteq> CHR '' '' \<and> c \<noteq> CHR 0x27 \<and> c \<noteq> CHR 0x22 \<and> c \<noteq> CHR ''&''
     \<and> c \<noteq> CHR ''|'' \<and> c \<noteq> CHR ''>''"
  by (auto simp: plain_def)

lemma lex_plain_char:
  "plain d \<Longrightarrow> lex (d # rest) Normal cur = lex rest Normal (Some (so_far cur @ [d]))"
  using plain_not_special [of d] by simp

lemma lex_plain_run:
  "\<forall>c\<in>set p. plain c \<Longrightarrow> plain d \<Longrightarrow>
     lex (p @ d # rest) Normal cur = lex rest Normal (Some (so_far cur @ p @ [d]))"
proof (induction p arbitrary: cur)
  case Nil
  then show ?case by (simp add: lex_plain_char del: lex.simps)
next
  case (Cons a p)
  have "lex ((a # p) @ d # rest) Normal cur = lex (p @ d # rest) Normal (Some (so_far cur @ [a]))"
    using Cons.prems(1) by (simp add: lex_plain_char del: lex.simps)
  also have "\<dots> = lex rest Normal (Some (so_far (Some (so_far cur @ [a])) @ p @ [d]))"
    using Cons.prems by (intro Cons.IH) auto
  finally show ?case by (simp add: so_far_def)
qed

lemma plain_slash: "plain (CHR ''/'')"
  by (simp add: plain_def)

lemma lex_head:
  "lex (''rsync -a --delete --exclude='*.lock' --exclude='*.log' --exclude='*.tmp' /root/.clawdbot/ '' @ rest)
       Normal None =
   map_option (\<lambda>ts. Word ''rsync'' # Word ''-a'' # Word ''--delete'' # Word ''--exclude=*.lock''
                     # Word ''--exclude=*.log'' # Word ''--exclude=*.tmp''
                     # Word ''/root/.clawdbot/'' # ts)
     (lex rest Normal None)"
  by (simp add: plain_def flush_def so_far_def option.map_comp comp_def)

lemma lex_middle:
  "lex ('' && date -Iseconds > '' @ rest) Normal (Some w) =
   map_option (\<lambda>ts. Word w # AndIf # Word ''date'' # Word ''-Iseconds'' # Great # ts)
     (lex rest Normal None)"
  by (simp add: plain_def flush_def so_far_def option.map_comp comp_def)

lemma lex_tail: "lex ''.last-sync'' Normal (Some w) = Some [Word (w @ ''.last-sync'')]"
  by (simp add: plain_def flush_def so_far_def)

lemma lex_syncCmd:
  assumes "\<forall>c\<in>set (R2_MOUNT_PATH cfg). plain c"
  shows "lex (syncCmd cfg) Normal None =
     Some [Word ''rsync'', Word ''-a'', Word ''--delete'', Word ''--exclude=*.lock'',
           Word ''--exclude=*.log'', Word ''--exclude=*.tmp'', Word ''/root/.clawdbot/'',
           Word (R2_MOUNT_PATH cfg @ ''/''), AndIf, Word ''date'', Word ''-Iseconds'', Great,
           Word (R2_MOUNT_PATH cfg @ ''/.last-sync'')]"
proof -
  let ?p = "R2_MOUNT_PATH cfg"
  have shape: "syncCmd cfg =
      ''rsync -a --delete --exclude='*.lock' --exclude='*.log' --exclude='*.tmp' /root/.clawdbot/ ''
      @ (?p @ CHR ''/'' # ('' && date -Iseconds > '' @ (?p @ CHR ''/'' # ''.last-sync'')))"
    by (simp add: syncCmd_def)
  have third: "lex (?p @ CHR ''/'' # ''.last-sync'') Normal None = Some [Word (?p @ ''/.last-sync'')]"
    using lex_plain_run [OF assms plain_slash, of "''.last-sync''" None]
    by (simp add: so_far_def lex_tail del: lex.simps)
  have second: "lex ('' && date -Iseconds > '' @ (?p @ CHR ''/'' # ''.last-sync'')) Normal (Some (?p @ ''/'')) =
      Some [Word (?p @ ''/''), AndIf, Word ''date'', Word ''-Iseconds'', Great, Word (?p @ ''/.last-sync'')]"
    unfolding lex_middle third by simp
  have first: "lex (?p @ CHR ''/'' # ('' && date -Iseconds > '' @ (?p @ CHR ''/'' # ''.last-sync''))) Normal None =
      Some [Word (?p @ ''/''), AndIf, Word ''date'', Word ''-Iseconds'', Great, Word (?p @ ''/.last-sync'')]"
    using lex_plain_run [OF assms plain_slash,
        of "'' && date -Iseconds > '' @ (?p @ CHR ''/'' # ''.last-sync'')" None] second
    by (simp add: so_far_def del: lex.simps)
  show ?thesis unfolding shape lex_head first by simp
qed

lemma sh_parse_syncCmd:
  assumes "\<forall>c\<in>set (R2_MOUNT_PATH cfg). plain c"
  shows "sh_parse (syncCmd cfg) =
     Some [\<lparr>argv = [''rsync'', ''-a'', ''--delete'', ''--exclude=*.lock'', ''--exclude=*.log'',
                     ''--exclude=*.tmp'', ''/root/.clawdbot/'', R2_MOUNT_PATH cfg @ ''/''],
            stdout_to = None\<rparr>,
           \<lparr>argv = [''date'', ''-Iseconds''],
            stdout_to = Some (R2_MOUNT_PATH cfg @ ''/.last-sync'')\<rparr>]"
  by (simp add: sh_parse_def lex_syncCmd [OF assms])

lemma append_single: "(@) [x] = (#) x"
  by (rule ext) simp

lemma lex_cat:
  "lex (''cat '' @ rest) Normal None = map_option (Cons (Word ''cat'')) (lex rest Normal None)"
  by (simp add: plain_def flush_def so_far_def append_single)

lemma lex_last_sync_tail:
  "lex (''.last-sync 2>/dev/null || echo '' @ [CHR 0x22, CHR 0x22]) Normal (Some w) =
     Some [Word (w @ ''.last-sync''), ErrGreat, Word ''/dev/null'', OrIf, Word ''echo'', Word []]"
  by (simp add: plain_def flush_def so_far_def)


lemma lex_lastSyncCmd:
  assumes "\<forall>c\<in>set (R2_MOUNT_PATH cfg). plain c"
  shows "lex (lastSyncCmd cfg) Normal None =
           Some [Word ''cat'', Word (R2_MOUNT_PATH cfg @ ''/.last-sync''), ErrGreat,
                 Word ''/dev/null'', OrIf, Word ''echo'', Word []]"
proof -
  let ?p = "R2_MOUNT_PATH cfg"
  have shape: "lastSyncCmd cfg =
      ''cat '' @ (?p @ CHR ''/'' # (''.last-sync 2>/dev/null || echo '' @ [CHR 0x22, CHR 0x22]))"
    by (simp add: lastSyncCmd_def)
  have rest: "lex (?p @ CHR ''/'' # (''.last-sync 2>/dev/null || echo '' @ [CHR 0x22, CHR 0x22])) Normal None =
      Some [Word (?p @ ''/.last-sync''), ErrGreat, Word ''/dev/null'', OrIf, Word ''echo'', Word []]"
    using lex_plain_run [OF assms plain_slash,
        of "''.last-sync 2>/dev/null || echo '' @ [CHR 0x22, CHR 0x22]" None]
    by (simp only: so_far_def option.case append_Nil lex_last_sync_tail) simp
  show ?thesis unfolding shape lex_cat rest by simp
qed


lemma sh_parse_and_or_lastSyncCmd:
  assumes "\<forall>c\<in>set (R2_MOUNT_PATH cfg). plain c"
  shows "sh_parse_and_or (lastSyncCmd cfg) =
     Some [(\<lparr>argv = [''cat'', R2_MOUNT_PATH cfg @ ''/.last-sync''],
             stdout_to = None, stderr_to = Some ''/dev/null''\<rparr>, Some Or_If),
           (\<lparr>argv = [''echo'', []], stdout_to = None, stderr_to = None\<rparr>, None)]"
  by (simp add: sh_parse_and_or_def lex_lastSyncCmd [OF assms] no_command_def)



lemma sh_lastSyncCmd:
  assumes "\<forall>c\<in>set (R2_MOUNT_PATH cfg). plain c"
  shows "sh other fs (lastSyncCmd cfg) =
     Some (case fs (R2_MOUNT_PATH cfg @ ''/.last-sync'') of
             Some content \<Rightarrow> (0, content, fs)
           | None \<Rightarrow> (0, [CHR 0x0A], fs))"
  by (simp add: sh_def sh_parse_and_or_lastSyncCmd [OF assms] run_command_def run_utility_def
           Let_def split: option.splits)



lemma trim_newline: "trim [CHR 0x0A] = []"
  by code_simp

section \<open>The catch-all route\<close>

text \<open>
  Claim C2. Whenever \<open>ensureClawdbotGateway\<close> fails, with an \<open>Error\<close> or with any other
  thrown value, the catch-all handler answers with status 503 and a JSON object of exactly the
  three fields \<open>error\<close>, \<open>details\<close> and \<open>hint\<close>; the handler itself raises nothing and makes no
  proxy call. The hint is the one of the ordered classification: a missing
  \<open>ANTHROPIC_API_KEY\<close> first, then an out-of-memory marker in the message, then the default.
\<close>

theorem startup_failure_is_structured_503:
  assumes "ensureClawdbotGateway s = Inl err"
  shows "catch_all cfg e req s =
           (Respond 503 (JObject [(''error'', JString ''Clawdbot gateway failed to start''),
                                  (''details'', JString (errorMessage err)),
                                  (''hint'', JString (hint_of (classify e (errorMessage err))))]),
            perform (Log ''Failed to start Clawdbot:'') (perform EnsureGateway s))
       \<and> (classify e (errorMessage err) = MissingCredential
            \<longleftrightarrow> \<not> truthy (ANTHROPIC_API_KEY e))
       \<and> (classify e (errorMessage err) = ResourceExhaustion
            \<longleftrightarrow> truthy (ANTHROPIC_API_KEY e)
                \<and> ((\<exists>a b. errorMessage err = a @ ''heap out of memory'' @ b)
                     \<or> (\<exists>a b. errorMessage err = a @ ''OOM'' @ b)))
       \<and> (classify e (errorMessage err) = Unknown
            \<longleftrightarrow> truthy (ANTHROPIC_API_KEY e)
                \<and> \<not> (\<exists>a b. errorMessage err = a @ ''heap out of memory'' @ b)
                \<and> \<not> (\<exists>a b. errorMessage err = a @ ''OOM'' @ b))"
proof -
  have reply: "catch_all cfg e req s =
           (Respond 503 (JObject [(''error'', JString ''Clawdbot gateway failed to start''),
                                  (''details'', JString (errorMessage err)),
                                  (''hint'', JString (hint_of (classify e (errorMessage err))))]),
            perform (Log ''Failed to start Clawdbot:'') (perform EnsureGateway s))"
    using assms by (simp add: catch_all_def Let_def classify_def hint_of_def)
  have order: "classify e (errorMessage err) =
      (if \<not> truthy (ANTHROPIC_API_KEY e) then MissingCredential
       else if (\<exists>a b. errorMessage err = a @ ''heap out of memory'' @ b)
               \<or> (\<exists>a b. errorMessage err = a @ ''OOM'' @ b)
       then ResourceExhaustion else Unknown)"
    unfolding classify_def str_includes_iff ..
  show ?thesis unfolding order using reply [unfolded order] by auto
qed

theorem startup_failure_is_structured_503_witness:
  "ensureClawdbotGateway example_sandbox = Inl (Error ''FATAL ERROR: JavaScript heap out of memory'')
   \<and> fst (catch_all example_config example_env example_request example_sandbox) =
       Respond 503 (JObject [(''error'', JString ''Clawdbot gateway failed to start''),
                             (''details'', JString ''FATAL ERROR: JavaScript heap out of memory''),
                             (''hint'', JString ''Gateway ran out of memory. Try again or check for memory leaks.'')])"
proof -
  have h: "ensureClawdbotGateway example_sandbox = Inl (Error ''FATAL ERROR: JavaScript heap out of memory'')"
    by (simp add: example_sandbox_def)
  have c: "classify example_env ''FATAL ERROR: JavaScript heap out of memory'' = ResourceExhaustion"
    by (simp add: classify_def example_env_def truthy_def)
  show ?thesis
    using h startup_failure_is_structured_503 [OF h, of example_config example_env example_request]
    by (simp add: c hint_of_def hint_oom_def errorMessage_def del: append_eq_append_conv2)
qed

text \<open>
  Claim C6. Once the gateway is ready, the handler makes exactly one proxy call, with the
  request as it received it and on the fixed port: a WebSocket relay if and only if the
  \<open>Upgrade\<close> header, lowered, is \<open>websocket\<close>, and a plain HTTP forward otherwise (also when
  the header is absent).
\<close>

theorem proxy_routes_on_upgrade_header:
  assumes "ensureClawdbotGateway s = Inr u"
  shows "(fst (catch_all cfg e req s) = RelayWebSocket req (CLAWDBOT_PORT cfg)
            \<longleftrightarrow> map_option toLowerCase (req_headers req ''upgrade'') = Some ''websocket'')
       \<and> (fst (catch_all cfg e req s) = ForwardHttp req (CLAWDBOT_PORT cfg)
            \<longleftrightarrow> map_option toLowerCase (req_headers req ''upgrade'') \<noteq> Some ''websocket'')
       \<and> proxied (trace (snd (catch_all cfg e req s))) =
           proxied (trace s) @
             [if map_option toLowerCase (req_headers req ''upgrade'') = Some ''websocket''
              then WsConnect req (CLAWDBOT_PORT cfg) else ContainerFetch req (CLAWDBOT_PORT cfg)]"
  using assms by (simp add: catch_all_def Let_def headers_get_def toLowerCase_Upgrade)

theorem proxy_routes_on_upgrade_header_witness:
  "ensureClawdbotGateway (example_sandbox\<lparr>ensureClawdbotGateway := Inr ()\<rparr>) = Inr ()
   \<and> fst (catch_all example_config example_env example_request
            (example_sandbox\<lparr>ensureClawdbotGateway := Inr ()\<rparr>)) = RelayWebSocket example_request 18789"
proof -
  have h: "ensureClawdbotGateway (example_sandbox\<lparr>ensureClawdbotGateway := Inr ()\<rparr>) = Inr ()"
    by simp
  have l: "toLowerCase ''WebSocket'' = ''websocket''" by code_simp
  show ?thesis
    using h proxy_routes_on_upgrade_header [OF h, of example_config example_env example_request]
    by (simp add: example_request_def example_config_def l)
qed

section \<open>Facts about the mount manager and the scheduled backup\<close>

lemma mountR2Storage_cases:
  "mountR2Storage e s =
     (if \<not> hasCredentials e then (False, perform (Log ''R2 storage not configured'') s)
      else if mounted s then (True, perform ProbeMount s)
      else case mountBucket s of
             Inl err \<Rightarrow> (False, perform (Log ''Failed to mount R2 bucket'')
                                  (perform MountCommand (perform ProbeMount s)))
           | Inr u \<Rightarrow> (True, (perform MountCommand (perform ProbeMount s))\<lparr>mounted := True\<rparr>))"
  by (auto simp: mountR2Storage_def Let_def split: sum.splits)

lemma mountR2Storage_keeps:
  "startProcess (snd (mountR2Storage e s)) = startProcess s"
  "mountBucket (snd (mountR2Storage e s)) = mountBucket s"
  "started (trace (snd (mountR2Storage e s))) = started (trace s)"
  "killed (trace (snd (mountR2Storage e s))) = killed (trace s)"
  "waited (trace (snd (mountR2Storage e s))) = waited (trace s)"
  by (auto simp: mountR2Storage_cases split: sum.splits)

lemma mountR2Storage_result:
  "fst (mountR2Storage e s) \<longleftrightarrow> hasCredentials e \<and> (mounted s \<or> \<not> isl (mountBucket s))"
  "fst (mountR2Storage e s) \<Longrightarrow> mounted (snd (mountR2Storage e s))"
  by (auto simp: mountR2Storage_cases split: sum.splits if_splits)

lemma scheduled_try_effects:
  "started (trace (snd (scheduled_try cfg s))) = started (trace s) @ [syncCmd cfg]"
  "killed (trace (snd (scheduled_try cfg s))) = killed (trace s)"
  "mount_commands (trace (snd (scheduled_try cfg s))) = mount_commands (trace s)"
  "waited (trace (snd (scheduled_try cfg s))) \<le> waited (trace s) + 30000"
proof -
  let ?s2 = "perform (StartProcess (syncCmd cfg)) (perform (Log ''[cron] Starting backup sync to R2...'') s)"
  have all: "started (trace (snd (scheduled_try cfg s))) = started (trace s) @ [syncCmd cfg]
     \<and> killed (trace (snd (scheduled_try cfg s))) = killed (trace s)
     \<and> mount_commands (trace (snd (scheduled_try cfg s))) = mount_commands (trace s)
     \<and> waited (trace (snd (scheduled_try cfg s))) \<le> waited (trace s) + 30000"
  proof (cases "startProcess s (syncCmd cfg)")
    case (Inl err)
    then show ?thesis by (simp add: scheduled_try_def Let_def)
  next
    case (Inr proc)
    obtain k where k: "k \<le> 60"
      "sync_wait proc 0 ?s2 = (k, ?s2\<lparr>trace := trace ?s2 @ replicate k (Sleep 500)\<rparr>)"
      using sync_wait_0 [of proc ?s2] by blast
    show ?thesis using Inr k
      by (cases "getLogs proc") (simp_all add: scheduled_try_def Let_def)
  qed
  then show "started (trace (snd (scheduled_try cfg s))) = started (trace s) @ [syncCmd cfg]"
    "killed (trace (snd (scheduled_try cfg s))) = killed (trace s)"
    "mount_commands (trace (snd (scheduled_try cfg s))) = mount_commands (trace s)"
    "waited (trace (snd (scheduled_try cfg s))) \<le> waited (trace s) + 30000"
    by simp_all
qed

lemma scheduled_resolves: "fst (scheduled cfg e s) = Inr ()"
  by (simp add: scheduled_def split: prod.splits sum.splits)

lemma scheduled_effects:
  "killed (trace (snd (scheduled cfg e s))) = killed (trace s)"
  "waited (trace (snd (scheduled cfg e s))) \<le> waited (trace s) + 30000"
  "started (trace (snd (scheduled cfg e s))) =
     started (trace s) @ (if fst (mountR2Storage e s) then [syncCmd cfg] else [])"
proof -
  obtain r s1 where m: "mountR2Storage e s = (r, s1)" by (cases "mountR2Storage e s")
  have keep: "started (trace s1) = started (trace s)" "killed (trace s1) = killed (trace s)"
    "waited (trace s1) = waited (trace s)"
    using mountR2Storage_keeps [of e s] m by simp_all
  have r: "r \<Longrightarrow> hasCredentials e" using mountR2Storage_result(1) [of e s] m by simp
  obtain x s2 where t: "scheduled_try cfg s1 = (x, s2)" by (cases "scheduled_try cfg s1")
  have eff: "started (trace s2) = started (trace s1) @ [syncCmd cfg]"
    "killed (trace s2) = killed (trace s1)" "waited (trace s2) \<le> waited (trace s1) + 30000"
    using scheduled_try_effects [of cfg s1] t by simp_all
  show "killed (trace (snd (scheduled cfg e s))) = killed (trace s)"
    using m t keep eff by (cases x) (auto simp: scheduled_def mountR2Storage_cases)
  show "waited (trace (snd (scheduled cfg e s))) \<le> waited (trace s) + 30000"
    using m t keep eff by (cases x) (auto simp: scheduled_def mountR2Storage_cases)
  show "started (trace (snd (scheduled cfg e s))) =
     started (trace s) @ (if fst (mountR2Storage e s) then [syncCmd cfg] else [])"
    using m t keep eff r by (cases x) (auto simp: scheduled_def mountR2Storage_cases)
qed

lemma scheduled_no_credentials:
  "\<not> hasCredentials e \<Longrightarrow>
     scheduled cfg e s = (Inr (), perform (Log ''[cron] R2 not configured, skipping backup'') s)"
  by (auto simp: scheduled_def)

lemma scheduled_mount_failed:
  assumes "hasCredentials e" "\<not> fst (mountR2Storage e s)"
  shows "started (trace (snd (scheduled cfg e s))) = started (trace s)"
    and "last (trace (snd (scheduled cfg e s))) = Log ''[cron] Failed to mount R2, skipping backup''"
  using assms by (auto simp: scheduled_def mountR2Storage_cases split: sum.splits if_splits)

lemma sync_wait_polls: "fst (sync_wait proc n s) = fst (sync_wait proc n s')"
proof (induction proc n s arbitrary: s' rule: sync_wait.induct)
  case (1 proc attempts s)
  show ?case
  proof (cases "status proc attempts = Running \<and> attempts < 60")
    case True
    have "sync_wait proc attempts s = sync_wait proc (Suc attempts) (perform (Sleep 500) s)"
      using True by (subst sync_wait.simps) simp
    moreover have "sync_wait proc attempts s' = sync_wait proc (Suc attempts) (perform (Sleep 500) s')"
      using True by (subst sync_wait.simps) simp
    ultimately show ?thesis using 1 [OF True, of "perform (Sleep 500) s'"] by simp
  next
    case False
    have "sync_wait proc attempts s = (attempts, s)" using False by (subst sync_wait.simps) auto
    moreover have "sync_wait proc attempts s' = (attempts, s')" using False by (subst sync_wait.simps) auto
    ultimately show ?thesis by simp
  qed
qed

lemma sync_wait_at:
  "sync_wait proc 0 s' =
     (fst (sync_wait proc 0 s),
      s'\<lparr>trace := trace s' @ replicate (fst (sync_wait proc 0 s)) (Sleep 500)\<rparr>)"
proof -
  obtain k where "sync_wait proc 0 s' = (k, s'\<lparr>trace := trace s' @ replicate k (Sleep 500)\<rparr>)"
    using sync_wait_0 [of proc s'] by blast
  then show ?thesis using sync_wait_polls [of proc 0 s' s] by simp
qed

text \<open>The effects of \<open>scheduled\<close> once the mount has succeeded, by the answers of the sandbox.\<close>

lemma scheduled_mounted_trace:
  assumes "fst (mountR2Storage e s)"
  shows "trace (snd (scheduled cfg e s)) =
     trace (snd (mountR2Storage e s))
     @ [Log ''[cron] Starting backup sync to R2...'', StartProcess (syncCmd cfg)]
     @ (case startProcess s (syncCmd cfg) of
          Inl err \<Rightarrow> [Log ''[cron] Error during backup sync:'']
        | Inr proc \<Rightarrow>
            replicate (fst (sync_wait proc 0 s)) (Sleep 500)
            @ [GetLogs (proc_id proc)]
            @ (case getLogs proc of
                 Inl err \<Rightarrow> [Log ''[cron] Error during backup sync:'']
               | Inr lg \<Rightarrow>
                   [Log (if status proc (fst (sync_wait proc 0 s)) = Completed
                            \<or> exitCode proc (fst (sync_wait proc 0 s)) = Some 0
                         then ''[cron] Backup sync completed successfully''
                         else ''[cron] Backup sync failed:'')]))"
proof -
  obtain r s1 where m: "mountR2Storage e s = (r, s1)" by (cases "mountR2Storage e s")
  have r: "r" using assms m by simp
  have sp: "startProcess s1 = startProcess s" using mountR2Storage_keeps(1) [of e s] m by simp
  have c: "hasCredentials e" using assms mountR2Storage_result(1) [of e s] by simp
  let ?s2 = "perform (StartProcess (syncCmd cfg)) (perform (Log ''[cron] Starting backup sync to R2...'') s1)"
  show ?thesis
  proof (cases "startProcess s (syncCmd cfg)")
    case (Inl err)
    then show ?thesis using m r sp c by (simp add: scheduled_def scheduled_try_def Let_def)
  next
    case proc: (Inr proc)
    note w = sync_wait_at [of proc ?s2 s]
    show ?thesis using proc m r sp c w
      by (cases "getLogs proc") (simp_all add: scheduled_def scheduled_try_def Let_def)
  qed
qed

text \<open>
  Claim C3. The scheduled handler always resolves: it never raises to the periodic trigger.
  With any of the three R2 credentials missing, its only effect is one log line: no mount
  probe, no mount command, no process started. A mount that fails ends in a log line and
  starts nothing. Once the mount has succeeded the effects are fixed to the last entry: a
  sync command that cannot be started and logs that cannot be read end in the error log
  line, and otherwise the last line says completed exactly when the status read after the
  wait loop is \<open>completed\<close> or the exit code is 0, and failed in every other case, a sync
  that ran and then failed and a sync still running at the 30 s bound included.
  The mount is \<open>mountR2Storage\<close> as the specification describes it, which never throws.
\<close>

theorem scheduled_backup_always_resolves:
  "fst (scheduled cfg e s) = Inr ()
   \<and> (\<not> hasCredentials e \<longrightarrow>
        snd (scheduled cfg e s) = perform (Log ''[cron] R2 not configured, skipping backup'') s
        \<and> mount_probes (trace (snd (scheduled cfg e s))) = mount_probes (trace s)
        \<and> mount_commands (trace (snd (scheduled cfg e s))) = mount_commands (trace s)
        \<and> started (trace (snd (scheduled cfg e s))) = started (trace s))
   \<and> (hasCredentials e \<and> \<not> fst (mountR2Storage e s) \<longrightarrow>
        started (trace (snd (scheduled cfg e s))) = started (trace s)
        \<and> last (trace (snd (scheduled cfg e s))) = Log ''[cron] Failed to mount R2, skipping backup'')
   \<and> (fst (mountR2Storage e s) \<and> startProcess s (syncCmd cfg) = Inl err \<longrightarrow>
        trace (snd (scheduled cfg e s)) =
          trace (snd (mountR2Storage e s))
          @ [Log ''[cron] Starting backup sync to R2...'', StartProcess (syncCmd cfg),
             Log ''[cron] Error during backup sync:''])
   \<and> (fst (mountR2Storage e s) \<and> startProcess s (syncCmd cfg) = Inr proc \<and> getLogs proc = Inl err \<longrightarrow>
        trace (snd (scheduled cfg e s)) =
          trace (snd (mountR2Storage e s))
          @ [Log ''[cron] Starting backup sync to R2...'', StartProcess (syncCmd cfg)]
          @ replicate (fst (sync_wait proc 0 s)) (Sleep 500)
          @ [GetLogs (proc_id proc), Log ''[cron] Error during backup sync:''])
   \<and> (fst (mountR2Storage e s) \<and> startProcess s (syncCmd cfg) = Inr proc \<and> getLogs proc = Inr lg \<longrightarrow>
        trace (snd (scheduled cfg e s)) =
          trace (snd (mountR2Storage e s))
          @ [Log ''[cron] Starting backup sync to R2...'', StartProcess (syncCmd cfg)]
          @ replicate (fst (sync_wait proc 0 s)) (Sleep 500)
          @ [GetLogs (proc_id proc),
             Log (if status proc (fst (sync_wait proc 0 s)) = Completed
                     \<or> exitCode proc (fst (sync_wait proc 0 s)) = Some 0
                  then ''[cron] Backup sync completed successfully''
                  else ''[cron] Backup sync failed:'')])"
proof -
  have a: "\<not> hasCredentials e \<Longrightarrow>
        snd (scheduled cfg e s) = perform (Log ''[cron] R2 not configured, skipping backup'') s
        \<and> mount_probes (trace (snd (scheduled cfg e s))) = mount_probes (trace s)
        \<and> mount_commands (trace (snd (scheduled cfg e s))) = mount_commands (trace s)
        \<and> started (trace (snd (scheduled cfg e s))) = started (trace s)"
    by (simp add: scheduled_no_credentials)
  have b: "fst (mountR2Storage e s) \<Longrightarrow> startProcess s (syncCmd cfg) = Inl err \<Longrightarrow>
        trace (snd (scheduled cfg e s)) =
          trace (snd (mountR2Storage e s))
          @ [Log ''[cron] Starting backup sync to R2...'', StartProcess (syncCmd cfg),
             Log ''[cron] Error during backup sync:'']"
    by (simp add: scheduled_mounted_trace)
  have c: "fst (mountR2Storage e s) \<Longrightarrow> startProcess s (syncCmd cfg) = Inr proc \<Longrightarrow> getLogs proc = Inl err \<Longrightarrow>
        trace (snd (scheduled cfg e s)) =
          trace (snd (mountR2Storage e s))
          @ [Log ''[cron] Starting backup sync to R2...'', StartProcess (syncCmd cfg)]
          @ replicate (fst (sync_wait proc 0 s)) (Sleep 500)
          @ [GetLogs (proc_id proc), Log ''[cron] Error during backup sync:'']"
    by (simp add: scheduled_mounted_trace)
  have d: "fst (mountR2Storage e s) \<Longrightarrow> startProcess s (syncCmd cfg) = Inr proc \<Longrightarrow> getLogs proc = Inr lg \<Longrightarrow>
        trace (snd (scheduled cfg e s)) =
          trace (snd (mountR2Storage e s))
          @ [Log ''[cron] Starting backup sync to R2...'', StartProcess (syncCmd cfg)]
          @ replicate (fst (sync_wait proc 0 s)) (Sleep 500)
          @ [GetLogs (proc_id proc),
             Log (if status proc (fst (sync_wait proc 0 s)) = Completed
                     \<or> exitCode proc (fst (sync_wait proc 0 s)) = Some 0
                  then ''[cron] Backup sync completed successfully''
                  else ''[cron] Backup sync failed:'')]"
    by (simp add: scheduled_mounted_trace)
  show ?thesis
    using a b c d scheduled_resolves [of cfg e s] scheduled_mount_failed [of e s cfg]
    by blast
qed

theorem scheduled_backup_always_resolves_witness:
  "\<not> hasCredentials (example_env\<lparr>CF_ACCOUNT_ID := None\<rparr>)
   \<and> scheduled example_config (example_env\<lparr>CF_ACCOUNT_ID := None\<rparr>) example_sandbox =
       (Inr (), perform (Log ''[cron] R2 not configured, skipping backup'') example_sandbox)
   \<and> mount_commands (trace (snd (scheduled example_config (example_env\<lparr>CF_ACCOUNT_ID := None\<rparr>) example_sandbox))) = 0
   \<and> fst (sync_wait stuck_process 0 (example_sandbox\<lparr>startProcess := \<lambda>c. Inr stuck_process\<rparr>)) = 60
   \<and> last (trace (snd (scheduled example_config example_env
               (example_sandbox\<lparr>startProcess := \<lambda>c. Inr stuck_process\<rparr>)))) =
       Log ''[cron] Backup sync failed:''
   \<and> fst (scheduled example_config example_env
            (example_sandbox\<lparr>startProcess := \<lambda>c. Inr stuck_process\<rparr>)) = Inr ()"
proof -
  let ?e = "example_env\<lparr>CF_ACCOUNT_ID := None\<rparr>"
  let ?s = "example_sandbox\<lparr>startProcess := \<lambda>c. Inr stuck_process\<rparr>"
  have h: "\<not> hasCredentials ?e"
    by (simp add: truthy_def)
  have t: "mount_commands (trace example_sandbox) = 0" by (simp add: example_sandbox_def)
  have first: "scheduled example_config ?e example_sandbox =
       (Inr (), perform (Log ''[cron] R2 not configured, skipping backup'') example_sandbox)
     \<and> mount_commands (trace (snd (scheduled example_config ?e example_sandbox))) = 0"
    using h t scheduled_backup_always_resolves [of example_config ?e example_sandbox]
    by (metis prod.collapse)
  have c: "hasCredentials example_env" by (simp add: example_env_def truthy_def)
  have m: "fst (mountR2Storage example_env ?s)"
    using c by (simp add: mountR2Storage_result(1) example_sandbox_def)
  have p: "startProcess ?s (syncCmd example_config) = Inr stuck_process" by simp
  have g: "getLogs stuck_process = Inr \<lparr>stdout = Some [], stderr = Some []\<rparr>"
    by (simp add: stuck_process_def)
  have k: "fst (sync_wait stuck_process 0 ?s) = 60"
    by (rule sync_wait_forever_running) (simp add: stuck_process_def)
  have st: "status stuck_process 60 = Running" "exitCode stuck_process 60 = None"
    by (simp_all add: stuck_process_def)
  have "trace (snd (scheduled example_config example_env ?s)) =
          trace (snd (mountR2Storage example_env ?s))
          @ [Log ''[cron] Starting backup sync to R2...'', StartProcess (syncCmd example_config)]
          @ replicate (fst (sync_wait stuck_process 0 ?s)) (Sleep 500)
          @ [GetLogs (proc_id stuck_process),
             Log (if status stuck_process (fst (sync_wait stuck_process 0 ?s)) = Completed
                     \<or> exitCode stuck_process (fst (sync_wait stuck_process 0 ?s)) = Some 0
                  then ''[cron] Backup sync completed successfully''
                  else ''[cron] Backup sync failed:'')]"
    using scheduled_backup_always_resolves
        [where cfg = example_config and e = example_env and s = ?s and proc = stuck_process
           and lg = "\<lparr>stdout = Some [], stderr = Some []\<rparr>"] m p g
    by blast
  then have second: "last (trace (snd (scheduled example_config example_env ?s))) =
       Log ''[cron] Backup sync failed:''"
    unfolding k by (simp add: st)
  have third: "fst (scheduled example_config example_env ?s) = Inr ()"
    using scheduled_backup_always_resolves [where cfg = example_config and e = example_env and s = ?s]
    by blast
  show ?thesis using h first k second third by blast
qed

text \<open>
  Claim C5. The wait loop of the scheduled sync ends after at most 60 waits of 500 ms, on the
  first poll that does not read \<open>running\<close> or at the bound, whatever the process does; the
  whole handler waits at most 30 s and never kills a process. \<open>waitForProcess\<close> makes at
  most \<open>ceil(timeoutMs / 500)\<close> waits of 500 ms and then returns, whatever the process does.
\<close>

theorem polling_loops_are_bounded:
  "(\<exists>k\<le>60. sync_wait proc 0 s = (k, s\<lparr>trace := trace s @ replicate k (Sleep 500)\<rparr>)
            \<and> (status proc k \<noteq> Running \<or> k = 60))
   \<and> waited (trace (snd (scheduled cfg e s))) \<le> waited (trace s) + 60 * 500
   \<and> killed (trace (snd (scheduled cfg e s))) = killed (trace s)
   \<and> (\<exists>k. int k \<le> max 0 \<lceil>real_of_int timeoutMs / 500\<rceil>
          \<and> waitForProcess proc timeoutMs s = (k, s\<lparr>trace := trace s @ replicate k (Sleep 500)\<rparr>))"
  using sync_wait_0 [of proc s] scheduled_effects(1,2) [of cfg e s]
    waitForProcess_shape [of proc timeoutMs s]
  by auto

theorem polling_loops_are_bounded_witness:
  "fst (sync_wait stuck_process 0 example_sandbox) = 60
   \<and> killed (trace (snd (scheduled example_config example_env example_sandbox))) = []
   \<and> fst (waitForProcess stuck_process 5000 example_sandbox) \<le> 10"
proof -
  have r: "\<And>k. status stuck_process k = Running" by (simp add: stuck_process_def)
  have t: "killed (trace example_sandbox) = []" by (simp add: example_sandbox_def)
  have c: "max 0 \<lceil>real_of_int 5000 / 500\<rceil> = 10" by simp
  show ?thesis
    using polling_loops_are_bounded [of stuck_process example_sandbox example_config example_env 5000]
    unfolding c by (auto simp: r t)
qed

section \<open>Facts about the API routes\<close>






subsection \<open>GET /storage\<close>

lemma missing_fields_eq:
  "missing_fields e =
     (if \<not> truthy (R2_ACCESS_KEY_ID e) then [''R2_ACCESS_KEY_ID''] else [])
   @ (if \<not> truthy (R2_SECRET_ACCESS_KEY e) then [''R2_SECRET_ACCESS_KEY''] else [])
   @ (if \<not> truthy (CF_ACCOUNT_ID e) then [''CF_ACCOUNT_ID''] else [])"
  by (simp add: missing_fields_def credential_fields_def)

lemma missing_fields_empty: "missing_fields e = [] \<longleftrightarrow> hasCredentials e"
  by (auto simp: missing_fields_eq)

text \<open>What the \<open>try\<close> block leaves in \<open>lastSync\<close>, by the answers of the sandbox.\<close>

lemma storage_try_value:
  "fst (storage_try cfg e s) =
     (case startProcess s (lastSyncCmd cfg) of
        Inl err \<Rightarrow> Inl err
      | Inr proc \<Rightarrow>
          (case getLogs proc of
             Inl err \<Rightarrow> Inl err
           | Inr lg \<Rightarrow> Inr (if truthy (map_option trim (stdout lg))
                               then map_option trim (stdout lg) else None)))"
proof -
  obtain r s1 where m: "mountR2Storage e s = (r, s1)" by (cases "mountR2Storage e s")
  have sp: "startProcess s1 = startProcess s" using mountR2Storage_keeps(1) [of e s] m by simp
  let ?s2 = "perform (StartProcess (lastSyncCmd cfg)) s1"
  show ?thesis
  proof (cases "startProcess s (lastSyncCmd cfg)")
    case (Inl err)
    then show ?thesis using m sp by (simp add: storage_try_def Let_def)
  next
    case (Inr proc)
    obtain k where k: "waitForProcess proc 5000 ?s2 = (k, ?s2\<lparr>trace := trace ?s2 @ replicate k (Sleep 500)\<rparr>)"
      using waitForProcess_shape [of proc 5000 ?s2] by blast
    show ?thesis using Inr m sp k
      by (cases "getLogs proc") (simp_all add: storage_try_def Let_def)
  qed
qed

lemma storage_reply:
  "fst (storage cfg e s) =
     Inr (Respond 200 (JObject
       ([(''configured'', JBool (hasCredentials e))]
        @ field ''missing'' (if hasCredentials e then None
                              else Some (JArray (map JString (missing_fields e))))
        @ [(''lastSync'',
            if hasCredentials e
            then (case fst (storage_try cfg e s) of
                    Inl err \<Rightarrow> JNull
                  | Inr None \<Rightarrow> JNull
                  | Inr (Some t) \<Rightarrow> JString t)
            else JNull),
           (''message'', JString (if hasCredentials e then msg_configured else msg_not_configured))])))"
proof (cases "hasCredentials e")
  case True
  obtain x s1 where t: "storage_try cfg e s = (x, s1)" by (cases "storage_try cfg e s")
  show ?thesis using True t
    by (cases x) (auto simp: storage_def Let_def field_def missing_fields_eq [symmetric] missing_fields_empty
                  split: option.splits)
next
  case False
  then show ?thesis
    by (cases "truthy (R2_ACCESS_KEY_ID e)"; cases "truthy (R2_SECRET_ACCESS_KEY e)";
        cases "truthy (CF_ACCOUNT_ID e)")
       (simp_all add: storage_def Let_def missing_fields_eq field_def)
qed

lemma storage_not_configured_state:
  "\<not> hasCredentials e \<Longrightarrow> snd (storage cfg e s) = s"
  by (cases "truthy (R2_ACCESS_KEY_ID e)"; cases "truthy (R2_SECRET_ACCESS_KEY e)";
      cases "truthy (CF_ACCOUNT_ID e)")
     (simp_all add: storage_def Let_def)

lemma storage_started:
  "started (trace (snd (storage cfg e s))) =
     started (trace s) @ (if hasCredentials e then [lastSyncCmd cfg] else [])"
proof (cases "hasCredentials e")
  case False
  then show ?thesis using storage_not_configured_state [of e cfg s] by simp
next
  case True
  obtain r s1 where m: "mountR2Storage e s = (r, s1)" by (cases "mountR2Storage e s")
  have sp: "startProcess s1 = startProcess s" using mountR2Storage_keeps(1) [of e s] m by simp
  have st: "started (trace s1) = started (trace s)" using mountR2Storage_keeps(3) [of e s] m by simp
  let ?s2 = "perform (StartProcess (lastSyncCmd cfg)) s1"
  have tried: "started (trace (snd (storage_try cfg e s))) = started (trace s) @ [lastSyncCmd cfg]"
  proof (cases "startProcess s (lastSyncCmd cfg)")
    case (Inl err)
    then show ?thesis using m sp st by (simp add: storage_try_def Let_def)
  next
    case (Inr proc)
    obtain k where k: "waitForProcess proc 5000 ?s2 = (k, ?s2\<lparr>trace := trace ?s2 @ replicate k (Sleep 500)\<rparr>)"
      using waitForProcess_shape [of proc 5000 ?s2] by blast
    show ?thesis using Inr m sp st k
      by (cases "getLogs proc") (simp_all add: storage_try_def Let_def)
  qed
  obtain x s' where t: "storage_try cfg e s = (x, s')" by (cases "storage_try cfg e s")
  have "snd (storage cfg e s) = snd (storage_try cfg e s)"
    using True t by (cases x) (simp_all add: storage_def Let_def)
  then show ?thesis using tried True by simp
qed

text \<open>What the status query shows when the logs hold what the shell printed for the read.\<close>

lemma storage_lastSync_of_marker:
  assumes "\<forall>c\<in>set (R2_MOUNT_PATH cfg). plain c"
    and "sh other fs (lastSyncCmd cfg) = Some (rc, out, fs')" and "stdout lg = Some out"
  shows "(if truthy (map_option trim (stdout lg)) then JString (trim (the (stdout lg))) else JNull) =
     (case fs (R2_MOUNT_PATH cfg @ ''/.last-sync'') of
        None \<Rightarrow> JNull
      | Some content \<Rightarrow> if trim content = [] then JNull else JString (trim content))"
  using assms(2,3) unfolding sh_lastSyncCmd [OF assms(1)]
  by (auto simp: truthy_def trim_newline split: option.splits)

subsection \<open>POST /storage/sync\<close>

lemma storage_sync_not_configured:
  "\<not> hasCredentials e \<Longrightarrow>
     storage_sync cfg e now s =
       (Inr (Respond 400 (JObject [(''error'', JString ''R2 storage is not configured'')])), s)"
  by (cases "truthy (R2_ACCESS_KEY_ID e)"; cases "truthy (R2_SECRET_ACCESS_KEY e)";
      cases "truthy (CF_ACCOUNT_ID e)")
     (simp_all add: storage_sync_def)

lemma storage_sync_mount_failed:
  assumes "hasCredentials e" "\<not> fst (mountR2Storage e s)"
  shows "fst (storage_sync cfg e now s) =
           Inr (Respond 500 (JObject [(''error'', JString ''Failed to mount R2 storage'')]))"
    and "started (trace (snd (storage_sync cfg e now s))) = started (trace s)"
proof -
  obtain r s1 where m: "mountR2Storage e s = (r, s1)" by (cases "mountR2Storage e s")
  have k: "started (trace s1) = started (trace s)" using mountR2Storage_keeps(3) [of e s] m by simp
  show "fst (storage_sync cfg e now s) =
           Inr (Respond 500 (JObject [(''error'', JString ''Failed to mount R2 storage'')]))"
    using assms m by (simp add: storage_sync_def storage_sync_try_def)
  show "started (trace (snd (storage_sync cfg e now s))) = started (trace s)"
    using assms m k by (simp add: storage_sync_def storage_sync_try_def)
qed




subsection \<open>The storage status query\<close>

text \<open>
  Claim C8, as amended. \<open>GET /storage\<close> always answers 200 and never throws. \<open>configured\<close>
  is true exactly when all three credentials are present, which is exactly when no field is
  missing; otherwise \<open>missing\<close> lists every absent credential by its name. When configured,
  the one command it starts is the read of the marker: \<open>cat\<close> of \<open>.last-sync\<close> on the mount
  with the error stream discarded, or else \<open>echo\<close> of the empty word. \<open>lastSync\<close> is null
  when storage is not configured (nothing is then started), when starting the read or reading
  its logs throws, and when the marker is absent or holds only white space; otherwise it is
  the trimmed content of the marker file. Storage problems are not visible through this query
  alone: a mount that fails is also reported by the manual sync endpoint, as HTTP 500.
\<close>

theorem storage_status_all_or_nothing:
  "\<exists>body. fst (storage cfg e s) = Inr (Respond 200 body)
     \<and> json_get body ''configured'' = Some (JBool (hasCredentials e))
     \<and> json_get body ''missing'' =
         (if hasCredentials e then None else Some (JArray (map JString (missing_fields e))))
     \<and> (hasCredentials e \<longleftrightarrow> missing_fields e = [])
     \<and> (\<not> hasCredentials e \<longrightarrow>
          json_get body ''lastSync'' = Some JNull \<and> snd (storage cfg e s) = s)
     \<and> (hasCredentials e \<and> startProcess s (lastSyncCmd cfg) = Inl err \<longrightarrow>
          json_get body ''lastSync'' = Some JNull)
     \<and> (hasCredentials e \<and> startProcess s (lastSyncCmd cfg) = Inr proc \<and> getLogs proc = Inl err \<longrightarrow>
          json_get body ''lastSync'' = Some JNull)
     \<and> (hasCredentials e \<and> startProcess s (lastSyncCmd cfg) = Inr proc \<and> getLogs proc = Inr lg \<longrightarrow>
          json_get body ''lastSync'' =
            Some (if truthy (map_option trim (stdout lg))
                  then JString (trim (the (stdout lg))) else JNull))
     \<and> started (trace (snd (storage cfg e s))) =
          started (trace s) @ (if hasCredentials e then [lastSyncCmd cfg] else [])
     \<and> ((\<forall>c\<in>set (R2_MOUNT_PATH cfg). plain c) \<longrightarrow>
          sh_parse_and_or (lastSyncCmd cfg) =
            Some [(\<lparr>argv = [''cat'', R2_MOUNT_PATH cfg @ ''/.last-sync''],
                    stdout_to = None, stderr_to = Some ''/dev/null''\<rparr>, Some Or_If),
                  (\<lparr>argv = [''echo'', []], stdout_to = None, stderr_to = None\<rparr>, None)]
          \<and> sh other fs (lastSyncCmd cfg) =
            Some (case fs (R2_MOUNT_PATH cfg @ ''/.last-sync'') of
                    Some content \<Rightarrow> (0, content, fs)
                  | None \<Rightarrow> (0, [CHR 0x0A], fs)))
     \<and> ((\<forall>c\<in>set (R2_MOUNT_PATH cfg). plain c) \<and> hasCredentials e
          \<and> startProcess s (lastSyncCmd cfg) = Inr proc \<and> getLogs proc = Inr lg
          \<and> sh other fs (lastSyncCmd cfg) = Some (rc, out, fs') \<and> stdout lg = Some out \<longrightarrow>
          json_get body ''lastSync'' =
            Some (case fs (R2_MOUNT_PATH cfg @ ''/.last-sync'') of
                    None \<Rightarrow> JNull
                  | Some content \<Rightarrow> if trim content = [] then JNull else JString (trim content)))
     \<and> (hasCredentials e \<and> \<not> fst (mountR2Storage e s) \<longrightarrow>
          fst (storage_sync cfg e now s) =
            Inr (Respond 500 (JObject [(''error'', JString ''Failed to mount R2 storage'')])))"
proof -
  let ?last = "if hasCredentials e
            then (case fst (storage_try cfg e s) of
                    Inl err \<Rightarrow> JNull
                  | Inr None \<Rightarrow> JNull
                  | Inr (Some t) \<Rightarrow> JString t)
            else JNull"
  let ?body = "JObject
       ([(''configured'', JBool (hasCredentials e))]
        @ field ''missing'' (if hasCredentials e then None
                              else Some (JArray (map JString (missing_fields e))))
        @ [(''lastSync'', ?last),
           (''message'', JString (if hasCredentials e then msg_configured else msg_not_configured))])"
  have b: "fst (storage cfg e s) = Inr (Respond 200 ?body)" by (rule storage_reply)
  have g1: "json_get ?body ''configured'' = Some (JBool (hasCredentials e))" by simp
  have g2: "json_get ?body ''missing'' =
         (if hasCredentials e then None else Some (JArray (map JString (missing_fields e))))"
    by (simp add: field_def)
  have g3: "json_get ?body ''lastSync'' = Some ?last"
    by (simp add: field_def)
  have l1: "\<not> hasCredentials e \<Longrightarrow> ?last = JNull" by (rule if_not_P)
  have l2: "hasCredentials e \<Longrightarrow> startProcess s (lastSyncCmd cfg) = Inl err \<Longrightarrow> ?last = JNull"
    by (simp add: storage_try_value)
  have l3: "hasCredentials e \<Longrightarrow> startProcess s (lastSyncCmd cfg) = Inr proc \<Longrightarrow> getLogs proc = Inl err
      \<Longrightarrow> ?last = JNull"
    by (simp add: storage_try_value)
  have l4: "hasCredentials e \<Longrightarrow> startProcess s (lastSyncCmd cfg) = Inr proc \<Longrightarrow> getLogs proc = Inr lg
      \<Longrightarrow> ?last = (if truthy (map_option trim (stdout lg))
                  then JString (trim (the (stdout lg))) else JNull)"
    by (cases "stdout lg") (simp_all add: storage_try_value truthy_def)
  have l5: "\<forall>c\<in>set (R2_MOUNT_PATH cfg). plain c \<Longrightarrow> hasCredentials e
      \<Longrightarrow> startProcess s (lastSyncCmd cfg) = Inr proc \<Longrightarrow> getLogs proc = Inr lg
      \<Longrightarrow> sh other fs (lastSyncCmd cfg) = Some (rc, out, fs') \<Longrightarrow> stdout lg = Some out
      \<Longrightarrow> ?last = (case fs (R2_MOUNT_PATH cfg @ ''/.last-sync'') of
                    None \<Rightarrow> JNull
                  | Some content \<Rightarrow> if trim content = [] then JNull else JString (trim content))"
  proof -
    assume pl: "\<forall>c\<in>set (R2_MOUNT_PATH cfg). plain c" and hc: "hasCredentials e"
      and sp: "startProcess s (lastSyncCmd cfg) = Inr proc" and gl: "getLogs proc = Inr lg"
      and ran: "sh other fs (lastSyncCmd cfg) = Some (rc, out, fs')" and so: "stdout lg = Some out"
    have "?last = (if truthy (map_option trim (stdout lg))
                  then JString (trim (the (stdout lg))) else JNull)"
      using l4 [OF hc sp gl] .
    also have "\<dots> = (case fs (R2_MOUNT_PATH cfg @ ''/.last-sync'') of
                    None \<Rightarrow> JNull
                  | Some content \<Rightarrow> if trim content = [] then JNull else JString (trim content))"
      by (rule storage_lastSync_of_marker [OF pl ran so])
    finally show ?thesis .
  qed
  have p: "\<forall>c\<in>set (R2_MOUNT_PATH cfg). plain c \<Longrightarrow>
          sh_parse_and_or (lastSyncCmd cfg) =
            Some [(\<lparr>argv = [''cat'', R2_MOUNT_PATH cfg @ ''/.last-sync''],
                    stdout_to = None, stderr_to = Some ''/dev/null''\<rparr>, Some Or_If),
                  (\<lparr>argv = [''echo'', []], stdout_to = None, stderr_to = None\<rparr>, None)]
          \<and> sh other fs (lastSyncCmd cfg) =
            Some (case fs (R2_MOUNT_PATH cfg @ ''/.last-sync'') of
                    Some content \<Rightarrow> (0, content, fs)
                  | None \<Rightarrow> (0, [CHR 0x0A], fs))"
    using sh_parse_and_or_lastSyncCmd [of cfg] sh_lastSyncCmd [of cfg other fs] by blast
  have ms: "hasCredentials e \<Longrightarrow> \<not> fst (mountR2Storage e s) \<Longrightarrow>
          fst (storage_sync cfg e now s) =
            Inr (Respond 500 (JObject [(''error'', JString ''Failed to mount R2 storage'')]))"
    by (rule storage_sync_mount_failed(1))
  have c4: "\<not> hasCredentials e \<longrightarrow>
          json_get ?body ''lastSync'' = Some JNull \<and> snd (storage cfg e s) = s"
    unfolding g3 using l1 storage_not_configured_state [of e cfg s] by blast
  have c5: "hasCredentials e \<and> startProcess s (lastSyncCmd cfg) = Inl err \<longrightarrow>
          json_get ?body ''lastSync'' = Some JNull"
    unfolding g3 using l2 by blast
  have c6: "hasCredentials e \<and> startProcess s (lastSyncCmd cfg) = Inr proc \<and> getLogs proc = Inl err \<longrightarrow>
          json_get ?body ''lastSync'' = Some JNull"
    unfolding g3 using l3 by blast
  have c7: "hasCredentials e \<and> startProcess s (lastSyncCmd cfg) = Inr proc \<and> getLogs proc = Inr lg \<longrightarrow>
          json_get ?body ''lastSync'' =
            Some (if truthy (map_option trim (stdout lg))
                  then JString (trim (the (stdout lg))) else JNull)"
    unfolding g3 using l4 by blast
  have c8: "started (trace (snd (storage cfg e s))) =
          started (trace s) @ (if hasCredentials e then [lastSyncCmd cfg] else [])"
    by (rule storage_started)
  have c9: "(\<forall>c\<in>set (R2_MOUNT_PATH cfg). plain c) \<longrightarrow>
          sh_parse_and_or (lastSyncCmd cfg) =
            Some [(\<lparr>argv = [''cat'', R2_MOUNT_PATH cfg @ ''/.last-sync''],
                    stdout_to = None, stderr_to = Some ''/dev/null''\<rparr>, Some Or_If),
                  (\<lparr>argv = [''echo'', []], stdout_to = None, stderr_to = None\<rparr>, None)]
          \<and> sh other fs (lastSyncCmd cfg) =
            Some (case fs (R2_MOUNT_PATH cfg @ ''/.last-sync'') of
                    Some content \<Rightarrow> (0, content, fs)
                  | None \<Rightarrow> (0, [CHR 0x0A], fs))"
    using p by blast
  have c10: "(\<forall>c\<in>set (R2_MOUNT_PATH cfg). plain c) \<and> hasCredentials e
          \<and> startProcess s (lastSyncCmd cfg) = Inr proc \<and> getLogs proc = Inr lg
          \<and> sh other fs (lastSyncCmd cfg) = Some (rc, out, fs') \<and> stdout lg = Some out \<longrightarrow>
          json_get ?body ''lastSync'' =
            Some (case fs (R2_MOUNT_PATH cfg @ ''/.last-sync'') of
                    None \<Rightarrow> JNull
                  | Some content \<Rightarrow> if trim content = [] then JNull else JString (trim content))"
    unfolding g3 using l5 by blast
  have c11: "hasCredentials e \<and> \<not> fst (mountR2Storage e s) \<longrightarrow>
          fst (storage_sync cfg e now s) =
            Inr (Respond 500 (JObject [(''error'', JString ''Failed to mount R2 storage'')]))"
    using ms by blast
  have c3: "hasCredentials e \<longleftrightarrow> missing_fields e = []"
    using missing_fields_empty [of e] by blast
  show ?thesis
    by (rule exI [of _ ?body]) (intro conjI b g1 g2 c3 c4 c5 c6 c7 c8 c9 c10 c11)
qed

theorem storage_status_all_or_nothing_witness:
  "(\<exists>body. fst (storage example_config example_env example_sandbox) = Inr (Respond 200 body)
     \<and> json_get body ''configured'' = Some (JBool True)
     \<and> json_get body ''missing'' = None
     \<and> json_get body ''lastSync'' = Some (JString ''2026-01-30T12:00:00+00:00''))
   \<and> (\<exists>body. fst (storage example_config example_env broken_sandbox) = Inr (Respond 200 body)
     \<and> sh (\<lambda>fs av. (0, [], fs)) Map.empty (lastSyncCmd example_config) = Some (0, [CHR 0x0A], Map.empty)
     \<and> json_get body ''lastSync'' = Some JNull)"
proof -
  let ?lg = "\<lparr>stdout = Some ''2026-01-30T12:00:00+00:00\<newline>'', stderr = Some []\<rparr>"
  let ?lg' = "\<lparr>stdout = Some [CHR 0x0A], stderr = Some []\<rparr>"
  let ?marker = "R2_MOUNT_PATH example_config @ ''/.last-sync''"
  have c: "hasCredentials example_env" by (simp add: example_env_def truthy_def)
  have p: "startProcess example_sandbox (lastSyncCmd example_config) = Inr example_process"
    by (simp add: example_sandbox_def)
  have g: "getLogs example_process = Inr ?lg"
    by (simp add: example_process_def)
  have t: "trim ''2026-01-30T12:00:00+00:00\<newline>'' = ''2026-01-30T12:00:00+00:00''"
    by code_simp
  have pl: "\<forall>c\<in>set (R2_MOUNT_PATH example_config). plain c"
    by (simp add: example_config_def plain_def)
  have p': "startProcess broken_sandbox (lastSyncCmd example_config) = Inr absent_marker_process"
    by (simp add: broken_sandbox_def)
  have g': "getLogs absent_marker_process = Inr ?lg'"
    by (simp add: absent_marker_process_def)
  have first: "\<exists>body. fst (storage example_config example_env example_sandbox) = Inr (Respond 200 body)
     \<and> json_get body ''configured'' = Some (JBool True)
     \<and> json_get body ''missing'' = None
     \<and> json_get body ''lastSync'' = Some (JString ''2026-01-30T12:00:00+00:00'')"
    using storage_status_all_or_nothing [where cfg = example_config and e = example_env
        and s = example_sandbox and proc = example_process and lg = ?lg
        and other = "\<lambda>fs av. (0, [], fs)" and fs = Map.empty and rc = 0 and out = "[]"
        and fs' = Map.empty and now = "''now''" and err = Thrown]
  proof (elim exE conjE)
    fix body
    assume b1: "fst (storage example_config example_env example_sandbox) = Inr (Respond 200 body)"
      and b2: "json_get body ''configured'' = Some (JBool (hasCredentials example_env))"
      and b3: "json_get body ''missing'' =
         (if hasCredentials example_env then None
          else Some (JArray (map JString (missing_fields example_env))))"
      and b7: "hasCredentials example_env
          \<and> startProcess example_sandbox (lastSyncCmd example_config) = Inr example_process
          \<and> getLogs example_process = Inr ?lg \<longrightarrow>
          json_get body ''lastSync'' =
            Some (if truthy (map_option trim (stdout ?lg))
                  then JString (trim (the (stdout ?lg))) else JNull)"
    have l: "json_get body ''lastSync'' =
            Some (if truthy (map_option trim (stdout ?lg))
                  then JString (trim (the (stdout ?lg))) else JNull)"
      using b7 c p g by (simp only: simp_thms)
    have l': "json_get body ''lastSync'' = Some (JString ''2026-01-30T12:00:00+00:00'')"
      unfolding l by (simp add: t truthy_def)
    have b2': "json_get body ''configured'' = Some (JBool True)" unfolding b2 using c by simp
    have b3': "json_get body ''missing'' = None" unfolding b3 using c by simp
    show ?thesis using b1 b2' b3' l' by (intro exI [of _ body] conjI)
  qed
  have ran: "sh (\<lambda>fs av. (0, [], fs)) Map.empty (lastSyncCmd example_config) = Some (0, [CHR 0x0A], Map.empty)"
    using storage_status_all_or_nothing [where cfg = example_config and e = example_env
        and s = broken_sandbox and proc = absent_marker_process and lg = ?lg'
        and other = "\<lambda>fs av. (0, [], fs)" and fs = Map.empty and rc = 0 and out = "[CHR 0x0A]"
        and fs' = Map.empty and now = "''now''" and err = Thrown]
  proof (elim exE conjE)
    fix body
    assume b9: "(\<forall>c\<in>set (R2_MOUNT_PATH example_config). plain c) \<longrightarrow>
          sh_parse_and_or (lastSyncCmd example_config) =
            Some [(\<lparr>argv = [''cat'', ?marker],
                    stdout_to = None, stderr_to = Some ''/dev/null''\<rparr>, Some Or_If),
                  (\<lparr>argv = [''echo'', []], stdout_to = None, stderr_to = None\<rparr>, None)]
          \<and> sh (\<lambda>fs av. (0, [], fs)) Map.empty (lastSyncCmd example_config) =
            Some (case (Map.empty :: files) ?marker of
                    Some content \<Rightarrow> (0, content, Map.empty)
                  | None \<Rightarrow> (0, [CHR 0x0A], Map.empty))"
    have "sh (\<lambda>fs av. (0, [], fs)) Map.empty (lastSyncCmd example_config) =
            Some (case (Map.empty :: files) ?marker of
                    Some content \<Rightarrow> (0, content, Map.empty)
                  | None \<Rightarrow> (0, [CHR 0x0A], Map.empty))"
      using b9 pl by (simp only: simp_thms)
    then show ?thesis by simp
  qed
  have second: "\<exists>body. fst (storage example_config example_env broken_sandbox) = Inr (Respond 200 body)
     \<and> sh (\<lambda>fs av. (0, [], fs)) Map.empty (lastSyncCmd example_config) = Some (0, [CHR 0x0A], Map.empty)
     \<and> json_get body ''lastSync'' = Some JNull"
    using storage_status_all_or_nothing [where cfg = example_config and e = example_env
        and s = broken_sandbox and proc = absent_marker_process and lg = ?lg'
        and other = "\<lambda>fs av. (0, [], fs)" and fs = Map.empty and rc = 0 and out = "[CHR 0x0A]"
        and fs' = Map.empty and now = "''now''" and err = Thrown]
  proof (elim exE conjE)
    fix body
    assume b1: "fst (storage example_config example_env broken_sandbox) = Inr (Respond 200 body)"
      and b10: "(\<forall>c\<in>set (R2_MOUNT_PATH example_config). plain c) \<and> hasCredentials example_env
          \<and> startProcess broken_sandbox (lastSyncCmd example_config) = Inr absent_marker_process
          \<and> getLogs absent_marker_process = Inr ?lg'
          \<and> sh (\<lambda>fs av. (0, [], fs)) Map.empty (lastSyncCmd example_config) = Some (0, [CHR 0x0A], Map.empty)
          \<and> stdout ?lg' = Some [CHR 0x0A] \<longrightarrow>
          json_get body ''lastSync'' =
            Some (case (Map.empty :: files) ?marker of
                    None \<Rightarrow> JNull
                  | Some content \<Rightarrow> if trim content = [] then JNull else JString (trim content))"
    have so: "stdout ?lg' = Some [CHR 0x0A]" by simp
    have "json_get body ''lastSync'' =
            Some (case (Map.empty :: files) ?marker of
                    None \<Rightarrow> JNull
                  | Some content \<Rightarrow> if trim content = [] then JNull else JString (trim content))"
      using b10 pl c p' g' ran so by (simp only: simp_thms)
    then have "json_get body ''lastSync'' = Some JNull" by simp
    then show ?thesis using b1 ran by (intro exI [of _ body] conjI)
  qed
  show ?thesis using first second by (rule conjI)
qed

text \<open>
  The claim as first stated, that storage problems surface only through the status query, fails
  in a container whose mount command fails: the manual sync endpoint answers 500 there, while
  the status query answers 200 with \<open>configured\<close> true and a null \<open>lastSync\<close>.
\<close>

theorem storage_problem_surfaces_in_manual_sync:
  "\<not> fst (mountR2Storage example_env broken_sandbox)
   \<and> fst (storage_sync example_config example_env ''now'' broken_sandbox) =
       Inr (Respond 500 (JObject [(''error'', JString ''Failed to mount R2 storage'')]))
   \<and> fst (storage example_config example_env broken_sandbox) =
       Inr (Respond 200 (JObject [(''configured'', JBool True), (''lastSync'', JNull),
                                  (''message'', JString msg_configured)]))"
proof -
  have c: "hasCredentials example_env" by (simp add: example_env_def truthy_def)
  have m: "\<not> fst (mountR2Storage example_env broken_sandbox)"
    using c by (simp add: mountR2Storage_result(1) broken_sandbox_def)
  have r: "fst (storage_sync example_config example_env ''now'' broken_sandbox) =
       Inr (Respond 500 (JObject [(''error'', JString ''Failed to mount R2 storage'')]))"
    using c m by (rule storage_sync_mount_failed(1))
  have t: "fst (storage_try example_config example_env broken_sandbox) = Inr None"
    by (simp add: storage_try_value broken_sandbox_def absent_marker_process_def trim_newline truthy_def)
  have q: "fst (storage example_config example_env broken_sandbox) =
       Inr (Respond 200 (JObject [(''configured'', JBool True), (''lastSync'', JNull),
                                  (''message'', JString msg_configured)]))"
    using c by (simp add: storage_reply t field_def)
  show ?thesis using m r q by blast
qed

subsection \<open>The manual sync\<close>



subsection \<open>POST /gateway/restart\<close>

text \<open>
  Claim C7. The restart looks the gateway process up first. If there is one, it attempts to
  kill it, goes on whether or not the kill throws, waits 2000 ms, hands a new gateway start
  to the background and answers at once with success, the message that a new instance is
  starting and the identity of the previous process. The answer does not depend on how the
  new start ends. With no process found it neither kills nor waits.
\<close>

theorem restart_kills_waits_and_starts_in_background:
  "(findExistingClawdbotProcess s = Inr (Some p) \<longrightarrow>
      gateway_restart s =
        (Inr (Respond 200 (JObject
           [(''success'', JBool True),
            (''message'', JString ''Gateway process killed, new instance starting...''),
            (''previousProcessId'', JString (proc_id p))])),
         s\<lparr>trace := trace s
              @ [FindProcess, Log ''Killing existing gateway process:'', Kill (proc_id p)]
              @ (case kill p of Inl err \<Rightarrow> [Log ''Error killing process:''] | Inr u \<Rightarrow> [])
              @ [Sleep 2000, EnsureGatewayInBackground]\<rparr>))
   \<and> (findExistingClawdbotProcess s = Inr None \<longrightarrow>
        gateway_restart s =
          (Inr (Respond 200 (JObject
             [(''success'', JBool True),
              (''message'', JString ''No existing process found, starting new instance...'')])),
           s\<lparr>trace := trace s @ [FindProcess, EnsureGatewayInBackground]\<rparr>))
   \<and> fst (gateway_restart (s\<lparr>ensureClawdbotGateway := r\<rparr>)) = fst (gateway_restart s)"
proof -
  have a: "findExistingClawdbotProcess s = Inr (Some p) \<Longrightarrow>
      gateway_restart s =
        (Inr (Respond 200 (JObject
           [(''success'', JBool True),
            (''message'', JString ''Gateway process killed, new instance starting...''),
            (''previousProcessId'', JString (proc_id p))])),
         s\<lparr>trace := trace s
              @ [FindProcess, Log ''Killing existing gateway process:'', Kill (proc_id p)]
              @ (case kill p of Inl err \<Rightarrow> [Log ''Error killing process:''] | Inr u \<Rightarrow> [])
              @ [Sleep 2000, EnsureGatewayInBackground]\<rparr>)"
    by (cases "kill p")
       (simp_all add: gateway_restart_def gateway_restart_try_def Let_def field_def perform_def)
  have b: "findExistingClawdbotProcess s = Inr None \<Longrightarrow>
        gateway_restart s =
          (Inr (Respond 200 (JObject
             [(''success'', JBool True),
              (''message'', JString ''No existing process found, starting new instance...'')])),
           s\<lparr>trace := trace s @ [FindProcess, EnsureGatewayInBackground]\<rparr>)"
    by (simp add: gateway_restart_def gateway_restart_try_def Let_def field_def perform_def)
  have c: "fst (gateway_restart (s\<lparr>ensureClawdbotGateway := r\<rparr>)) = fst (gateway_restart s)"
    by (simp add: gateway_restart_def gateway_restart_try_def Let_def perform_def
             split: sum.splits option.splits)
  show ?thesis using a b c by blast
qed

theorem restart_kills_waits_and_starts_in_background_witness:
  "findExistingClawdbotProcess example_sandbox = Inr (Some example_process)
   \<and> kill example_process = Inl (Error ''no such process'')
   \<and> gateway_restart example_sandbox =
        (Inr (Respond 200 (JObject
           [(''success'', JBool True),
            (''message'', JString ''Gateway process killed, new instance starting...''),
            (''previousProcessId'', JString ''proc-1'')])),
         example_sandbox\<lparr>trace :=
            [FindProcess, Log ''Killing existing gateway process:'', Kill ''proc-1'',
             Log ''Error killing process:'', Sleep 2000, EnsureGatewayInBackground]\<rparr>)"
proof -
  have f: "findExistingClawdbotProcess example_sandbox = Inr (Some example_process)"
    by (simp add: example_sandbox_def)
  have k: "kill example_process = Inl (Error ''no such process'')" "proc_id example_process = ''proc-1''"
    by (simp_all add: example_process_def)
  have t: "trace example_sandbox = []" by (simp add: example_sandbox_def)
  show ?thesis
    using restart_kills_waits_and_starts_in_background [where s = example_sandbox and p = example_process]
      f k t by simp
qed

section \<open>The storage mount manager is idempotent\<close>

text \<open>
  Claim C9. With all three credentials present: when the fixed mount path already behaves as
  mounted, \<open>mountR2Storage\<close> returns true after the probe alone, issuing no mount command;
  when the credentials are valid, so that a mount command succeeds, two calls in a row both
  return true and issue at most one mount command between them; and in general a second call
  after a call that returned true issues none.
\<close>

theorem mount_is_idempotent:
  assumes "hasCredentials e"
  shows "(mounted s \<longrightarrow>
            mountR2Storage e s = (True, perform ProbeMount s)
            \<and> mount_commands (trace (snd (mountR2Storage e s))) = mount_commands (trace s))
       \<and> (mountBucket s = Inr u \<longrightarrow>
            fst (mountR2Storage e s)
            \<and> fst (mountR2Storage e (snd (mountR2Storage e s)))
            \<and> mount_commands (trace (snd (mountR2Storage e (snd (mountR2Storage e s)))))
                 \<le> mount_commands (trace s) + 1)
       \<and> (fst (mountR2Storage e s) \<longrightarrow>
            fst (mountR2Storage e (snd (mountR2Storage e s)))
            \<and> mount_commands (trace (snd (mountR2Storage e (snd (mountR2Storage e s)))))
                 = mount_commands (trace (snd (mountR2Storage e s))))"
proof -
  have a: "mounted s \<Longrightarrow> mountR2Storage e s = (True, perform ProbeMount s)
            \<and> mount_commands (trace (snd (mountR2Storage e s))) = mount_commands (trace s)"
    using assms by (simp add: mountR2Storage_cases)
  have c: "fst (mountR2Storage e s) \<Longrightarrow>
            fst (mountR2Storage e (snd (mountR2Storage e s)))
            \<and> mount_commands (trace (snd (mountR2Storage e (snd (mountR2Storage e s)))))
                 = mount_commands (trace (snd (mountR2Storage e s)))"
  proof -
    assume "fst (mountR2Storage e s)"
    then have "mounted (snd (mountR2Storage e s))" by (rule mountR2Storage_result(2))
    then show ?thesis using assms by (simp add: mountR2Storage_cases [of e "snd (mountR2Storage e s)"])
  qed
  have one: "mount_commands (trace (snd (mountR2Storage e s))) \<le> mount_commands (trace s) + 1"
    by (simp add: mountR2Storage_cases split: sum.splits)
  have b: "mountBucket s = Inr u \<Longrightarrow>
            fst (mountR2Storage e s)
            \<and> fst (mountR2Storage e (snd (mountR2Storage e s)))
            \<and> mount_commands (trace (snd (mountR2Storage e (snd (mountR2Storage e s)))))
                 \<le> mount_commands (trace s) + 1"
  proof -
    assume "mountBucket s = Inr u"
    then have "fst (mountR2Storage e s)" using assms by (simp add: mountR2Storage_result(1))
    then show ?thesis using c one by simp
  qed
  show ?thesis using a b c by blast
qed

theorem mount_is_idempotent_witness:
  "hasCredentials example_env \<and> mountBucket example_sandbox = Inr ()
   \<and> fst (mountR2Storage example_env example_sandbox)
   \<and> fst (mountR2Storage example_env (snd (mountR2Storage example_env example_sandbox)))
   \<and> mount_commands (trace (snd (mountR2Storage example_env
          (snd (mountR2Storage example_env example_sandbox))))) \<le> 1"
proof -
  have c: "hasCredentials example_env" by (simp add: example_env_def truthy_def)
  have b: "mountBucket example_sandbox = Inr ()" "mount_commands (trace example_sandbox) = 0"
    by (simp_all add: example_sandbox_def)
  have "mountBucket example_sandbox = Inr () \<longrightarrow>
            fst (mountR2Storage example_env example_sandbox)
            \<and> fst (mountR2Storage example_env (snd (mountR2Storage example_env example_sandbox)))
            \<and> mount_commands (trace (snd (mountR2Storage example_env
                  (snd (mountR2Storage example_env example_sandbox)))))
                 \<le> mount_commands (trace example_sandbox) + 1"
    using mount_is_idempotent [OF c, where s = example_sandbox and u = "()"] by blast
  then show ?thesis using c b by simp
qed

section \<open>Single flight of the gateway start\<close>

lemma calls_attach:
  assumes "in_flight m name = Some waiting"
  shows "ensureReady_run m (map (Call name) callers) =
           m\<lparr>in_flight := (in_flight m)(name \<mapsto> waiting @ callers)\<rparr>"
  using assms
proof (induction callers arbitrary: m waiting)
  case Nil
  then show ?case by (simp add: ensureReady_run_def fun_upd_idem)
next
  case (Cons c cs)
  let ?m1 = "m\<lparr>in_flight := (in_flight m)(name \<mapsto> waiting @ [c])\<rparr>"
  have s1: "ensureReady_step m (Call name c) = ?m1" using Cons.prems by simp
  have "in_flight ?m1 name = Some (waiting @ [c])" by simp
  from Cons.IH [OF this]
  have ih: "ensureReady_run ?m1 (map (Call name) cs) =
          ?m1\<lparr>in_flight := (in_flight ?m1)(name \<mapsto> (waiting @ [c]) @ cs)\<rparr>" .
  have upd: "?m1\<lparr>in_flight := (in_flight ?m1)(name \<mapsto> (waiting @ [c]) @ cs)\<rparr> =
          m\<lparr>in_flight := (in_flight m)(name \<mapsto> waiting @ c # cs)\<rparr>"
    by simp
  have run: "ensureReady_run m (map (Call name) (c # cs)) =
          ensureReady_run (ensureReady_step m (Call name c)) (map (Call name) cs)"
    by (simp add: ensureReady_run_def)
  show ?case unfolding run s1 ih upd ..
qed

lemma first_call_spawns:
  assumes "in_flight m name = None" "\<not> gateway_running m name"
  shows "ensureReady_step m (Call name c) =
           m\<lparr>spawn_count := (spawn_count m)(name := Suc (spawn_count m name)),
             in_flight := (in_flight m)(name \<mapsto> [c])\<rparr>"
  using assms by simp

text \<open>
  Claim C1. Let no gateway be running and no attempt be in flight for a sandbox. When N
  callers (N at least 1) enter \<open>ensureReady\<close> for it before the attempt resolves, exactly one
  spawn has occurred, all N callers are attached to that one attempt and none has an outcome
  yet; when the attempt resolves, each of the N callers observes that same outcome, still
  exactly one spawn has occurred, and the token is cleared.
\<close>

theorem concurrent_calls_share_one_spawn:
  assumes "in_flight m name = None" and "\<not> gateway_running m name" and "callers \<noteq> []"
  shows "spawn_count (ensureReady_run m (map (Call name) callers)) name = Suc (spawn_count m name)
       \<and> in_flight (ensureReady_run m (map (Call name) callers)) name = Some callers
       \<and> resolved (ensureReady_run m (map (Call name) callers)) = resolved m
       \<and> spawn_count (ensureReady_run m (map (Call name) callers @ [Resolve name out])) name
            = Suc (spawn_count m name)
       \<and> resolved (ensureReady_run m (map (Call name) callers @ [Resolve name out]))
            = resolved m @ map (\<lambda>caller. (caller, out)) callers
       \<and> in_flight (ensureReady_run m (map (Call name) callers @ [Resolve name out])) name = None"
proof -
  obtain c cs where cs: "callers = c # cs" using assms(3) by (cases callers) auto
  let ?m1 = "m\<lparr>spawn_count := (spawn_count m)(name := Suc (spawn_count m name)),
             in_flight := (in_flight m)(name \<mapsto> [c])\<rparr>"
  have s1: "ensureReady_step m (Call name c) = ?m1" using assms(1,2) by (rule first_call_spawns)
  have "in_flight ?m1 name = Some [c]" by simp
  from calls_attach [OF this, of cs]
  have run_cs: "ensureReady_run ?m1 (map (Call name) cs) =
        ?m1\<lparr>in_flight := (in_flight ?m1)(name \<mapsto> [c] @ cs)\<rparr>" .
  have calls: "ensureReady_run m (map (Call name) callers) =
        ?m1\<lparr>in_flight := (in_flight ?m1)(name \<mapsto> callers)\<rparr>"
    using s1 run_cs cs by (simp add: ensureReady_run_def)
  have all: "ensureReady_run m (map (Call name) callers @ [Resolve name out]) =
        ensureReady_step (ensureReady_run m (map (Call name) callers)) (Resolve name out)"
    by (simp add: ensureReady_run_def)
  show ?thesis unfolding all unfolding calls by simp
qed

theorem concurrent_calls_share_one_spawn_witness:
  "spawn_count (ensureReady_run example_manager
      [Call ''clawdbot'' 1, Call ''clawdbot'' 2, Call ''clawdbot'' 3,
       Resolve ''clawdbot'' (StartupError ''timeout'')]) ''clawdbot'' = 1
   \<and> resolved (ensureReady_run example_manager
      [Call ''clawdbot'' 1, Call ''clawdbot'' 2, Call ''clawdbot'' 3,
       Resolve ''clawdbot'' (StartupError ''timeout'')]) =
     [(1, StartupError ''timeout''), (2, StartupError ''timeout''), (3, StartupError ''timeout'')]"
proof -
  have h: "in_flight example_manager ''clawdbot'' = None" "\<not> gateway_running example_manager ''clawdbot''"
    "[1, 2, 3::nat] \<noteq> []"
    by (simp_all add: example_manager_def)
  have z: "spawn_count example_manager ''clawdbot'' = 0" "resolved example_manager = []"
    by (simp_all add: example_manager_def)
  show ?thesis
    using concurrent_calls_share_one_spawn [OF h, of "StartupError ''timeout''"] z by simp
qed

section \<open>The sync command\<close>

lemma storage_sync_started:
  "\<exists>rest. started (trace (snd (storage_sync cfg e now s))) =
            started (trace s) @ (if fst (mountR2Storage e s) then syncCmd cfg # rest else [])
        \<and> (rest = [] \<or> rest = [readSyncCmd cfg])"
proof (cases "fst (mountR2Storage e s)")
  case False
  have "started (trace (snd (storage_sync cfg e now s))) = started (trace s)"
  proof (cases "hasCredentials e")
    case True
    then show ?thesis using False storage_sync_mount_failed(2) by blast
  next
    case False
    then show ?thesis using storage_sync_not_configured [of e cfg now s] by simp
  qed
  then show ?thesis using False by (intro exI [of _ "[]"]) simp
next
  case mnt: True
  have c: "hasCredentials e" using mnt mountR2Storage_result(1) [of e s] by simp
  obtain r s1 where m: "mountR2Storage e s = (r, s1)" by (cases "mountR2Storage e s")
  have r: "r" using mnt m by simp
  have sp: "startProcess s1 = startProcess s" using mountR2Storage_keeps(1) [of e s] m by simp
  have st: "started (trace s1) = started (trace s)" using mountR2Storage_keeps(3) [of e s] m by simp
  let ?s2 = "perform (StartProcess (syncCmd cfg)) s1"
  have tried: "\<exists>rest. started (trace (snd (storage_sync_try cfg e now s))) =
            started (trace s) @ syncCmd cfg # rest \<and> (rest = [] \<or> rest = [readSyncCmd cfg])"
  proof (cases "startProcess s (syncCmd cfg)")
    case (Inl err)
    then show ?thesis using m r sp st by (simp add: storage_sync_try_def Let_def)
  next
    case proc: (Inr proc)
    obtain k where k: "waitForProcess proc 30000 ?s2 = (k, ?s2\<lparr>trace := trace ?s2 @ replicate k (Sleep 500)\<rparr>)"
      using waitForProcess_shape [of proc 30000 ?s2] by blast
    show ?thesis
    proof (cases "getLogs proc")
      case (Inl err)
      then show ?thesis using proc m r sp st k by (simp add: storage_sync_try_def Let_def)
    next
      case lg: (Inr lg)
      let ?s4 = "perform (GetLogs (proc_id proc)) (?s2\<lparr>trace := trace ?s2 @ replicate k (Sleep 500)\<rparr>)"
      let ?s5 = "perform (StartProcess (readSyncCmd cfg)) ?s4"
      show ?thesis
      proof (cases "status proc k = Completed \<or> exitCode proc k = Some 0")
        case False
        then show ?thesis using proc lg m r sp st k by (simp add: storage_sync_try_def Let_def)
      next
        case ok: True
        have sp5: "startProcess ?s5 = startProcess s" using sp by (simp add: perform_def)
        show ?thesis
        proof (cases "startProcess s (readSyncCmd cfg)")
          case (Inl err)
          then show ?thesis using proc lg ok m r sp sp5 st k
            by (simp add: storage_sync_try_def Let_def)
        next
          case tp: (Inr tproc)
          obtain j where j: "waitForProcess tproc 5000 ?s5 = (j, ?s5\<lparr>trace := trace ?s5 @ replicate j (Sleep 500)\<rparr>)"
            using waitForProcess_shape [of tproc 5000 ?s5] by blast
          show ?thesis using proc lg ok tp m r sp sp5 st k j
            by (cases "getLogs tproc") (simp_all add: storage_sync_try_def Let_def)
        qed
      qed
    qed
  qed
  obtain x s' where t: "storage_sync_try cfg e now s = (x, s')" by (cases "storage_sync_try cfg e now s")
  have "snd (storage_sync cfg e now s) = snd (storage_sync_try cfg e now s)"
    using c t by (cases x) (simp_all add: storage_sync_def)
  then show ?thesis using tried mnt by simp
qed

lemma sh_run_and_list:
  "snd (sh_run exec [\<lparr>argv = a, stdout_to = None\<rparr>, \<lparr>argv = b, stdout_to = Some f\<rparr>]) =
     (if fst (exec a) = 0 then [(f, snd (exec b))] else [])"
  by (simp add: split_beta Let_def)

text \<open>
  Claim C4. For a mount path made of plain path characters, the shell reads the sync command
  as an AND-list of two commands: \<open>rsync -a --delete\<close> with the three exclusions
  \<open>*.lock\<close>, \<open>*.log\<close> and \<open>*.tmp\<close>, from \<open>/root/.clawdbot/\<close> to the mount path; then
  \<open>date -Iseconds\<close> with its output redirected to \<open>.last-sync\<close> on the mount. Running the
  list writes the marker if and only if \<open>rsync\<close> exits with 0, and the marker then holds the
  output of \<open>date -Iseconds\<close>. The scheduled handler starts exactly this one command when
  the mount succeeded and nothing otherwise; the manual endpoint starts it first, followed at
  most by the read of the marker.
\<close>

theorem sync_command_mirrors_then_stamps:
  assumes "\<forall>c\<in>set (R2_MOUNT_PATH cfg). plain c"
  shows "sh_parse (syncCmd cfg) =
           Some [\<lparr>argv = [''rsync'', ''-a'', ''--delete'', ''--exclude=*.lock'', ''--exclude=*.log'',
                           ''--exclude=*.tmp'', ''/root/.clawdbot/'', R2_MOUNT_PATH cfg @ ''/''],
                  stdout_to = None\<rparr>,
                 \<lparr>argv = [''date'', ''-Iseconds''],
                  stdout_to = Some (R2_MOUNT_PATH cfg @ ''/.last-sync'')\<rparr>]
       \<and> snd (sh_run exec (the (sh_parse (syncCmd cfg)))) =
           (if fst (exec [''rsync'', ''-a'', ''--delete'', ''--exclude=*.lock'', ''--exclude=*.log'',
                          ''--exclude=*.tmp'', ''/root/.clawdbot/'', R2_MOUNT_PATH cfg @ ''/'']) = 0
            then [(R2_MOUNT_PATH cfg @ ''/.last-sync'', snd (exec [''date'', ''-Iseconds'']))]
            else [])
       \<and> started (trace (snd (scheduled cfg e s))) =
           started (trace s) @ (if fst (mountR2Storage e s) then [syncCmd cfg] else [])
       \<and> (\<exists>rest. started (trace (snd (storage_sync cfg e now s))) =
                   started (trace s) @ (if fst (mountR2Storage e s) then syncCmd cfg # rest else [])
               \<and> (rest = [] \<or> rest = [readSyncCmd cfg]))"
proof -
  note parsed = sh_parse_syncCmd [OF assms]
  have run: "snd (sh_run exec (the (sh_parse (syncCmd cfg)))) =
           (if fst (exec [''rsync'', ''-a'', ''--delete'', ''--exclude=*.lock'', ''--exclude=*.log'',
                          ''--exclude=*.tmp'', ''/root/.clawdbot/'', R2_MOUNT_PATH cfg @ ''/'']) = 0
            then [(R2_MOUNT_PATH cfg @ ''/.last-sync'', snd (exec [''date'', ''-Iseconds'']))]
            else [])"
    unfolding parsed option.sel by (rule sh_run_and_list)
  show ?thesis
    using parsed run scheduled_effects(3) [of cfg e s] storage_sync_started [of cfg e now s]
    by blast
qed

theorem sync_command_mirrors_then_stamps_witness:
  "list_all plain (R2_MOUNT_PATH example_config)
   \<and> sh_parse (syncCmd example_config) =
       Some [\<lparr>argv = [''rsync'', ''-a'', ''--delete'', ''--exclude=*.lock'', ''--exclude=*.log'',
                       ''--exclude=*.tmp'', ''/root/.clawdbot/'', ''/data/clawdbot/''],
              stdout_to = None\<rparr>,
             \<lparr>argv = [''date'', ''-Iseconds''], stdout_to = Some ''/data/clawdbot/.last-sync''\<rparr>]
   \<and> snd (sh_run (\<lambda>a. (0, ''2026-01-30T12:00:00+00:00'')) (the (sh_parse (syncCmd example_config)))) =
       [(''/data/clawdbot/.last-sync'', ''2026-01-30T12:00:00+00:00'')]
   \<and> snd (sh_run (\<lambda>a. (23, [])) (the (sh_parse (syncCmd example_config)))) = []"
proof -
  have h: "\<forall>c\<in>set (R2_MOUNT_PATH example_config). plain c"
    by (simp add: example_config_def plain_def)
  have p: "R2_MOUNT_PATH example_config = ''/data/clawdbot''" by (simp add: example_config_def)
  show ?thesis
    using h sync_command_mirrors_then_stamps [OF h, where exec = "\<lambda>a. (0, ''2026-01-30T12:00:00+00:00'')"]
      sync_command_mirrors_then_stamps [OF h, where exec = "\<lambda>a. (23, [])"]
    by (simp add: p list_all_iff)
qed

end
